theory Spec2Isabelle
  imports Complex_Main
begin

section \<open>The time-series channel of \<open>src/tags/object/TimeSeries/Channel.js\<close>\<close>

text \<open>
  The channel model keeps tag attributes read from the configuration, a tracker (cursor)
  position, and values derived by \<open>updateValue\<close>: the extracted raw value, the point
  series, three statistics and the time bounds of the series. The view reads them.

  Conventions of the embedding.
  \<^item> A finite JavaScript number is \<open>Num x\<close>, where the rational \<open>x\<close> is the exact value of
    the double; \<open>NaN\<close>, the two infinities, \<open>undefined\<close> and \<open>null\<close> are values of their
    own. Arithmetic rounds to the nearest double as the machine does. The sign of zero is
    not distinguished. A time (a \<open>Date\<close>, or a raw time sample) is an integer number of
    milliseconds.
  \<^item> An exception is a value: functions that can throw return \<open>error + 'a\<close>, and
    \<open>updateValue\<close>, which assigns fields before it may throw, returns the model as the
    assignments left it together with the exception, if any.
  \<^item> An attribute the code never assigned is \<open>None\<close>. The attributes \<open>_value\<close>,
    \<open>_series\<close>, ... are written \<open>v_value\<close>, \<open>v_series\<close>, ... (an identifier cannot start
    with an underscore).
  \<^item> The series library (pondjs), the state-tree runtime and \<open>runTemplate\<close> are not part
    of the file. The operations the channel calls are written out below as the library
    performs them on a series with one data column; \<open>runTemplate\<close> is a parameter.
\<close>

subsection \<open>JavaScript values\<close>

datatype jsval = Undefined | Null | NaN | Infinity | NegInfinity | Num rat

datatype error = TypeError | LibError

text \<open>Truthiness, as \<open>!x\<close> and \<open>x && y\<close> test it.\<close>

fun truthy :: "jsval \<Rightarrow> bool" where
  "truthy (Num x) = (x \<noteq> 0)"
| "truthy Infinity = True"
| "truthy NegInfinity = True"
| "truthy _ = False"

text \<open>\<open>a[i]\<close> on an array: the element, or \<open>undefined\<close> out of range.\<close>

definition index :: "'a list \<Rightarrow> nat \<Rightarrow> 'a option" where
  "index a i = (if i < length a then Some (a ! i) else None)"

definition index_val :: "jsval list \<Rightarrow> nat \<Rightarrow> jsval" where
  "index_val a i = (if i < length a then a ! i else Undefined)"

subsection \<open>Double-precision arithmetic\<close>

text \<open>
  A double has a significand of 53 bits and a binary exponent; the smallest spacing is
  \<open>2^-1074\<close>. \<open>round_double\<close> rounds a rational to the nearest point of that grid, a
  tie to the even significand; \<open>fl\<close> is the result of an operation whose exact value is
  \<open>x\<close>: the rounded value, or an infinity when it reaches \<open>2^1024\<close>.
\<close>

function ndigits :: "int \<Rightarrow> int \<Rightarrow> int" where
  "ndigits b n = (if n < b \<or> b < 2 then 1 else 1 + ndigits b (n div b))"
  by pat_completeness auto
termination
  by (relation "measure (\<lambda>(b, n). nat n)") (auto intro: int_div_less_self)

definition pow :: "int \<Rightarrow> int \<Rightarrow> rat" where
  "pow b e = (if 0 \<le> e then of_int b ^ nat e else 1 / of_int b ^ nat (- e))"

text \<open>
  \<open>ndigits b n\<close> is the number of digits of \<open>n\<close> in base \<open>b\<close>, \<open>pow b e\<close> the power
  \<open>b^e\<close> for an integer \<open>e\<close>, and \<open>ilog b a\<close> the integer \<open>e\<close> with
  \<open>b^e \<le> a < b^(e+1)\<close>, for \<open>a > 0\<close>.
\<close>

definition ilog :: "int \<Rightarrow> rat \<Rightarrow> int" where
  "ilog b a =
     (if 1 \<le> a then ndigits b \<lfloor>a\<rfloor> - 1
      else let e0 = - ndigits b \<lfloor>1 / a\<rfloor>
           in if pow b (e0 + 1) \<le> a then e0 + 1 else e0)"

definition round_half_even :: "rat \<Rightarrow> int" where
  "round_half_even m =
     (let f = \<lfloor>m\<rfloor>; d = m - of_int f
      in if d < 1 / 2 then f else if 1 / 2 < d then f + 1
         else if even f then f else f + 1)"

definition round_double :: "rat \<Rightarrow> rat" where
  "round_double x =
     (if x = 0 then 0
      else let a = \<bar>x\<bar>;
               q = max (ilog 2 a - 52) (- 1074);
               r = of_int (round_half_even (a / pow 2 q)) * pow 2 q
           in if x < 0 then - r else r)"

definition fl :: "rat \<Rightarrow> jsval" where
  "fl x =
     (let r = round_double x
      in if r = 0 then Num 0
         else if 1024 \<le> ilog 2 \<bar>r\<bar> then (if 0 < r then Infinity else NegInfinity)
         else Num r)"

text \<open>
  The operators \<open>+\<close>, \<open>-\<close>, \<open>*\<close>, \<open>/\<close> and \<open>Math.floor\<close> on numbers, and the comparison
  \<open><\<close>. An operand that is not a number is converted first.
\<close>

fun ToNumber :: "jsval \<Rightarrow> jsval" where
  "ToNumber Undefined = NaN"
| "ToNumber Null = Num 0"
| "ToNumber v = v"

fun add_number :: "jsval \<Rightarrow> jsval \<Rightarrow> jsval" where
  "add_number (Num x) (Num y) = fl (x + y)"
| "add_number Infinity NegInfinity = NaN"
| "add_number NegInfinity Infinity = NaN"
| "add_number NaN _ = NaN"
| "add_number _ NaN = NaN"
| "add_number Infinity _ = Infinity"
| "add_number _ Infinity = Infinity"
| "add_number NegInfinity _ = NegInfinity"
| "add_number _ NegInfinity = NegInfinity"
| "add_number _ _ = NaN"

fun negate :: "jsval \<Rightarrow> jsval" where
  "negate (Num x) = Num (- x)"
| "negate Infinity = NegInfinity"
| "negate NegInfinity = Infinity"
| "negate _ = NaN"

fun mul_number :: "jsval \<Rightarrow> jsval \<Rightarrow> jsval" where
  "mul_number (Num x) (Num y) = fl (x * y)"
| "mul_number NaN _ = NaN"
| "mul_number _ NaN = NaN"
| "mul_number Infinity (Num y) = (if y = 0 then NaN else if 0 < y then Infinity else NegInfinity)"
| "mul_number NegInfinity (Num y) = (if y = 0 then NaN else if 0 < y then NegInfinity else Infinity)"
| "mul_number (Num x) Infinity = (if x = 0 then NaN else if 0 < x then Infinity else NegInfinity)"
| "mul_number (Num x) NegInfinity = (if x = 0 then NaN else if 0 < x then NegInfinity else Infinity)"
| "mul_number Infinity Infinity = Infinity"
| "mul_number NegInfinity NegInfinity = Infinity"
| "mul_number Infinity NegInfinity = NegInfinity"
| "mul_number NegInfinity Infinity = NegInfinity"
| "mul_number _ _ = NaN"

fun div_number :: "jsval \<Rightarrow> jsval \<Rightarrow> jsval" where
  "div_number (Num x) (Num y) =
     (if y = 0 then (if x = 0 then NaN else if 0 < x then Infinity else NegInfinity)
      else fl (x / y))"
| "div_number NaN _ = NaN"
| "div_number _ NaN = NaN"
| "div_number Infinity (Num y) = (if y < 0 then NegInfinity else Infinity)"
| "div_number NegInfinity (Num y) = (if y < 0 then Infinity else NegInfinity)"
| "div_number (Num x) Infinity = Num 0"
| "div_number (Num x) NegInfinity = Num 0"
| "div_number _ _ = NaN"

definition js_add :: "jsval \<Rightarrow> jsval \<Rightarrow> jsval" where
  "js_add a b = add_number (ToNumber a) (ToNumber b)"

definition js_sub :: "jsval \<Rightarrow> jsval \<Rightarrow> jsval" where
  "js_sub a b = add_number (ToNumber a) (negate (ToNumber b))"

definition js_mul :: "jsval \<Rightarrow> jsval \<Rightarrow> jsval" where
  "js_mul a b = mul_number (ToNumber a) (ToNumber b)"

definition js_div :: "jsval \<Rightarrow> jsval \<Rightarrow> jsval" where
  "js_div a b = div_number (ToNumber a) (ToNumber b)"

fun floor_number :: "jsval \<Rightarrow> jsval" where
  "floor_number (Num x) = Num (of_int \<lfloor>x\<rfloor>)"
| "floor_number v = ToNumber v"

fun less_number :: "jsval \<Rightarrow> jsval \<Rightarrow> bool" where
  "less_number (Num x) (Num y) = (x < y)"
| "less_number NaN _ = False"
| "less_number _ NaN = False"
| "less_number Infinity _ = False"
| "less_number _ Infinity = True"
| "less_number _ NegInfinity = False"
| "less_number NegInfinity _ = True"
| "less_number _ _ = False"

definition js_less :: "jsval \<Rightarrow> jsval \<Rightarrow> bool" where
  "js_less a b = less_number (ToNumber a) (ToNumber b)"

fun isFinite :: "jsval \<Rightarrow> bool" where
  "isFinite (Num x) = True"
| "isFinite _ = False"

subsection \<open>\<open>parseInt(x, 10)\<close> on a number\<close>

text \<open>
  \<open>parseInt\<close> converts its argument to a string and reads the leading integer digits.
  A number is printed with the fewest decimal digits that read back as the same double.
  It is printed in plain decimal notation when it is zero or the printed magnitude lies
  in \<open>[10^-6, 10^21)\<close>, so the digits before the point are read: truncation toward
  zero. Outside that range it is printed as \<open>d.ddd e\<plusminus>n\<close> and only the leading digit
  \<open>d\<close> is read. \<open>undefined\<close>, \<open>null\<close>, \<open>NaN\<close> and the infinities print as words and give
  \<open>NaN\<close>.

  \<open>candidate k a\<close> looks for a decimal of \<open>k\<close> digits that reads back as \<open>a\<close>, the
  closest one if there are two, and gives its leading digit; \<open>first_digit\<close> takes the
  least \<open>k\<close> that has one (17 digits always do).
\<close>

definition trunc :: "rat \<Rightarrow> int" where
  "trunc x = (if 0 \<le> x then \<lfloor>x\<rfloor> else \<lceil>x\<rceil>)"

definition candidate :: "nat \<Rightarrow> rat \<Rightarrow> int option" where
  "candidate k a =
     (let scale = pow 10 (ilog 10 a - int k + 1);
          lo = \<lfloor>a / scale\<rfloor>;
          p_lo = of_int lo * scale;
          p_hi = of_int (lo + 1) * scale;
          ok_lo = (round_double p_lo = a);
          ok_hi = (round_double p_hi = a);
          s = (if ok_lo \<and> ok_hi then
                 (if a - p_lo < p_hi - a then Some lo
                  else if p_hi - a < a - p_lo then Some (lo + 1)
                  else if even lo then Some lo else Some (lo + 1))
               else if ok_lo then Some lo
               else if ok_hi then Some (lo + 1)
               else None)
      in case s of
           None \<Rightarrow> None
         | Some d \<Rightarrow> Some (if d = 10 ^ k then 1 else d div 10 ^ (k - 1)))"

fun first_digit_from :: "nat \<Rightarrow> nat \<Rightarrow> rat \<Rightarrow> int" where
  "first_digit_from 0 k a = \<lfloor>a / pow 10 (ilog 10 a)\<rfloor>"
| "first_digit_from (Suc n) k a =
     (case candidate k a of Some d \<Rightarrow> d | None \<Rightarrow> first_digit_from n (Suc k) a)"

definition first_digit :: "rat \<Rightarrow> int" where
  "first_digit a = first_digit_from 17 1 a"

definition decimal_notation :: "rat \<Rightarrow> bool" where
  "decimal_notation x \<longleftrightarrow>
     x = 0 \<or> (round_double (1 / 10 ^ 6) \<le> \<bar>x\<bar> \<and> \<bar>x\<bar> < 10 ^ 21)"

fun parseInt10 :: "jsval \<Rightarrow> jsval" where
  "parseInt10 (Num x) =
     (if decimal_notation x then Num (of_int (trunc x))
      else Num (of_int ((if x < 0 then - 1 else 1) * first_digit \<bar>x\<bar>)))"
| "parseInt10 _ = NaN"

subsection \<open>The series operations the channel calls\<close>

text \<open>
  A series built from \<open>{columns: ["time", c], points}\<close> holds one event per point: its
  time and, under the key \<open>c\<close>, its value. The constructor refuses events that are not
  in time order.
\<close>

type_synonym event = "int \<times> jsval"

record series =
  column_name :: "string option"
  events :: "event list"

fun isChronological :: "event list \<Rightarrow> bool" where
  "isChronological (e1 # e2 # es) = (fst e1 \<le> fst e2 \<and> isChronological (e2 # es))"
| "isChronological _ = True"

definition TimeSeries :: "string option \<Rightarrow> event list \<Rightarrow> error + series" where
  "TimeSeries c points =
     (if isChronological points then Inr \<lparr>column_name = c, events = points\<rparr>
      else Inl LibError)"

definition size_series :: "series \<Rightarrow> nat" where
  "size_series s = length (events s)"

text \<open>
  \<open>event.get(fieldSpec)\<close>. The data of an event is a map with the one key under which
  the constructor stored the value, the column name as a string (\<open>"null"\<close> for null). A
  string \<open>fieldSpec\<close> is split at its dots into a path into that map, so a name with a
  dot reaches nothing; a \<open>fieldSpec\<close> that is null reads nothing either.
\<close>

definition column_key :: "series \<Rightarrow> string" where
  "column_key s = (case column_name s of None \<Rightarrow> ''null'' | Some c \<Rightarrow> c)"

definition get_field :: "series \<Rightarrow> event \<Rightarrow> string option \<Rightarrow> jsval" where
  "get_field s ev fieldSpec =
     (case fieldSpec of
        None \<Rightarrow> Undefined
      | Some f \<Rightarrow> if CHR ''.'' \<notin> set f \<and> f = column_key s then snd ev else Undefined)"

text \<open>
  \<open>series.avg(f)\<close>, \<open>series.max(f)\<close> and \<open>series.min(f)\<close> aggregate the values that the
  events have at \<open>f\<close>. A field path that is neither a string nor \<open>undefined\<close> is
  refused with an exception; a series without events has no result (\<open>undefined\<close>). The
  reducers drop missing values (\<open>undefined\<close>, \<open>null\<close>, \<open>NaN\<close>) first. The average is the
  running sum, from \<open>0\<close>, divided by the count, \<open>0 / 0 = NaN\<close> when nothing is left. The
  maximum is a running comparison from \<open>-Infinity\<close>, the minimum one from \<open>Infinity\<close>,
  and a result that is not finite is dropped (\<open>undefined\<close>).
\<close>

fun ignoreMissing :: "jsval list \<Rightarrow> jsval list" where
  "ignoreMissing [] = []"
| "ignoreMissing (Undefined # vs) = ignoreMissing vs"
| "ignoreMissing (Null # vs) = ignoreMissing vs"
| "ignoreMissing (NaN # vs) = ignoreMissing vs"
| "ignoreMissing (v # vs) = v # ignoreMissing vs"

definition aggregate ::
  "(jsval list \<Rightarrow> jsval) \<Rightarrow> series \<Rightarrow> string option \<Rightarrow> error + jsval" where
  "aggregate reducer s fieldPath =
     (case fieldPath of
        None \<Rightarrow> Inl LibError
      | Some f \<Rightarrow>
          if events s = [] then Inr Undefined
          else Inr (reducer (map (\<lambda>ev. get_field s ev fieldPath) (events s))))"

definition avg_reducer :: "jsval list \<Rightarrow> jsval" where
  "avg_reducer values =
     (let clean = ignoreMissing values;
          sum = foldl (\<lambda>a b. js_add a b) (Num 0) clean
      in js_div sum (Num (of_nat (length clean))))"

definition max_reducer :: "jsval list \<Rightarrow> jsval" where
  "max_reducer values =
     (let mx = foldl (\<lambda>result v. if js_less result v then v else result)
                 NegInfinity (ignoreMissing values)
      in if isFinite mx then mx else Undefined)"

definition min_reducer :: "jsval list \<Rightarrow> jsval" where
  "min_reducer values =
     (let mn = foldl (\<lambda>result v. if js_less v result then v else result)
                 Infinity (ignoreMissing values)
      in if isFinite mn then mn else Undefined)"

definition avg :: "series \<Rightarrow> string option \<Rightarrow> error + jsval" where
  "avg s fieldPath = aggregate avg_reducer s fieldPath"

definition max_series :: "series \<Rightarrow> string option \<Rightarrow> error + jsval" where
  "max_series s fieldPath = aggregate max_reducer s fieldPath"

definition min_series :: "series \<Rightarrow> string option \<Rightarrow> error + jsval" where
  "min_series s fieldPath = aggregate min_reducer s fieldPath"

text \<open>
  \<open>range()\<close> scans the events for the earliest begin and the latest end; a series
  without events has no range and the call returns \<open>undefined\<close>.
\<close>

definition range_series :: "series \<Rightarrow> (int \<times> int) option" where
  "range_series s =
     (case events s of
        [] \<Rightarrow> None
      | e # es \<Rightarrow>
          Some (foldl (\<lambda>mn ev. if fst ev < mn then fst ev else mn) (fst e) es,
                foldl (\<lambda>mx ev. if fst ev > mx then fst ev else mx) (fst e) es))"

text \<open>
  \<open>at(pos)\<close> returns \<open>undefined\<close> on a series without events. Otherwise it reads the
  event list at \<open>pos\<close>, where a negative position counts from the end, and builds an
  event from what it read; out of range nothing is read and building the event throws.
\<close>

datatype jsindex = Idx int | PosInf | NegInf | IdxNaN | IdxUndefined

fun at_series :: "series \<Rightarrow> jsindex \<Rightarrow> error + event option" where
  "at_series s (Idx pos) =
     (let n = int (size_series s); j = (if pos < 0 then n + pos else pos)
      in if n = 0 then Inr None
         else if 0 \<le> j \<and> j < n then Inr (Some (events s ! nat j))
         else Inl LibError)"
| "at_series s _ = (if size_series s = 0 then Inr None else Inl LibError)"

text \<open>
  \<open>bisect(t, b)\<close> starts at position \<open>b || 0\<close>, returns \<open>undefined\<close> on a series without
  events, and otherwise walks forward until an event at or after \<open>t\<close>:
  \<^verbatim>\<open>
  for (; i < size; i++) {
    const ts = this.at(i).timestamp().getTime();
    if (ts > tms) return i - 1 >= 0 ? i - 1 : 0;
    else if (ts === tms) return i;
  }
  return i - 1;
  \<close>
  The positions are numbers: \<open>i - 1\<close> is rounded like every difference, which shows
  only beyond \<open>2^53\<close>.
\<close>

definition minus_one :: "int \<Rightarrow> int" where
  "minus_one i = \<lfloor>round_double (of_int i - 1)\<rfloor>"

function bisect_from :: "series \<Rightarrow> int \<Rightarrow> int \<Rightarrow> error + jsindex" where
  "bisect_from s tms i =
     (if i < int (size_series s) then
        (case at_series s (Idx i) of
           Inl e \<Rightarrow> Inl e
         | Inr None \<Rightarrow> Inl TypeError
         | Inr (Some ev) \<Rightarrow>
             if fst ev > tms then Inr (Idx (if i - 1 \<ge> 0 then i - 1 else 0))
             else if fst ev = tms then Inr (Idx i)
             else bisect_from s tms (i + 1))
      else Inr (Idx (minus_one i)))"
  by pat_completeness auto
termination
  by (relation "measure (\<lambda>(s, tms, i). nat (int (size_series s) - i))") auto

fun bisect :: "series \<Rightarrow> int \<Rightarrow> jsindex \<Rightarrow> error + jsindex" where
  "bisect s tms b =
     (if size_series s = 0 then Inr IdxUndefined
      else case b of
             Idx i \<Rightarrow> bisect_from s tms i
           | PosInf \<Rightarrow> Inr PosInf
           | NegInf \<Rightarrow> (case at_series s NegInf of Inl e \<Rightarrow> Inl e | Inr _ \<Rightarrow> Inl TypeError)
           | _ \<Rightarrow> bisect_from s tms 0)"

subsection \<open>The channel model and its parent\<close>

text \<open>
  \<open>TagAttrs\<close> (lines 80-99) and the attributes the actions assign. \<open>maybeNull\<close>
  attributes are \<open>None\<close> when null. The identifier, the type name and the child nodes of
  the model are left out: nothing in the file reads or writes them.
\<close>

record channel =
  displayname :: "string option"
  units :: "string option"
  unitsformat :: string
  caption :: bool
  interpolation :: string
  showgrid :: bool
  showtracker :: bool
  height :: string
  opacity :: string
  strokewidth :: string
  strokecolor :: string
  "value" :: "string option"
  tracker :: "int option"
  v_value :: "jsval list list option"
  v_series :: "series option"
  v_avg :: "jsval option"
  v_max :: "jsval option"
  v_min :: "jsval option"
  v_minTime :: "int option"
  v_maxTime :: "int option"

text \<open>
  The parent \<open>TimeSeriesModel\<close> is not in the file. The channel reads its raw value
  \<open>_value\<close> (whose first element is the array of time samples), its \<open>initialRange\<close>
  (begin and end) and its \<open>_needsUpdate\<close> counter, and calls its \<open>updateView\<close>.
\<close>

record timeseries_model =
  parent_value :: "int list list"
  initialRange :: "int \<times> int"
  v_needsUpdate :: nat

text \<open>
  Modelled from the spec: \<open>updateView\<close> of the parent model, which is not under src/.
  The spec says that mutating the tracker position "triggers a re-render"; the view reads
  the parent's \<open>_needsUpdate\<close> (line 153), so the signal is a new value of that counter.
\<close>

definition updateView :: "timeseries_model \<Rightarrow> timeseries_model" where
  "updateView p = p\<lparr>v_needsUpdate := v_needsUpdate p + 1\<rparr>"

subsection \<open>Configuration snapshots\<close>

text \<open>
  \<open>csMap\<close> (lines 61-78) is an object literal; where a key is written twice the later
  entry stands. \<open>csMap[k]\<close> reads an own entry, else a property inherited from
  \<open>Object.prototype\<close> (a function or an object, never a string), else \<open>undefined\<close>.
\<close>

datatype jsattr = AUndefined | AStr string | AObject

definition csMap :: "(string \<times> string) list" where
  "csMap =
     [(''curvestep'', ''curveStep''),
      (''curvebasis'', ''curvebasis''),
      (''curvebasisopen'', ''curveBasisOpen''),
      (''curvebundle'', ''curveBundle''),
      (''curvecardinal'', ''curveCardinal''),
      (''curvecardinalopen'', ''curveCardinalOpen''),
      (''curvecatmullrom'', ''curveCatmullRom''),
      (''curvecatmullromopen'', ''curveCatmullRomOpen''),
      (''curvelinear'', ''curveLinear''),
      (''curvemonotonex'', ''curveMonotoneX''),
      (''curvemonotoney'', ''curveMonotoneY''),
      (''curvenatural'', ''curveNatural''),
      (''curveradial'', ''curveRadial''),
      (''curvestep'', ''curveStep''),
      (''curvestepafter'', ''curveStepAfter''),
      (''curvestepbefore'', ''curveStepBefore'')]"

definition objectPrototype :: "string list" where
  "objectPrototype =
     [''constructor'', ''hasOwnProperty'', ''isPrototypeOf'', ''propertyIsEnumerable'',
      ''toLocaleString'', ''toString'', ''valueOf'', ''__proto__'',
      ''__defineGetter__'', ''__defineSetter__'', ''__lookupGetter__'',
      ''__lookupSetter__'']"

definition csMap_get :: "jsattr \<Rightarrow> jsattr" where
  "csMap_get k =
     (case k of
        AStr s \<Rightarrow>
          (case map_of (rev csMap) s of
             Some v \<Rightarrow> AStr v
           | None \<Rightarrow> if s \<in> set objectPrototype then AObject else AUndefined)
      | _ \<Rightarrow> AUndefined)"

record snapshot =
  s_displayname :: "string option"
  s_units :: "string option"
  s_unitsformat :: "string option"
  s_caption :: "bool option"
  s_interpolation :: jsattr
  s_showgrid :: "bool option"
  s_showtracker :: "bool option"
  s_height :: "string option"
  s_opacity :: "string option"
  s_strokewidth :: "string option"
  s_strokecolor :: "string option"
  s_value :: "string option"

text \<open>
  \<open>preProcessSnapshot\<close> (lines 113-116) writes into the snapshot it is given and returns
  it: the result is the new state of that same object.
\<close>

definition preProcessSnapshot :: "snapshot \<Rightarrow> snapshot" where
  "preProcessSnapshot snapshot =
     snapshot\<lparr>s_interpolation := csMap_get (s_interpolation snapshot)\<rparr>"

text \<open>
  Creating the model from a snapshot. Every attribute takes its value from the
  preprocessed snapshot or, when the snapshot has \<open>undefined\<close> there, the default of its
  \<open>types.optional\<close> (null for \<open>types.maybeNull\<close>). The interpolation must be one of
  \<open>Object.values(csMap)\<close>, otherwise the snapshot is rejected with an exception.

  With type checks on (a development build) the runtime first validates the snapshot
  and then instantiates the model, and each step applies the preprocessor to the
  snapshot object, which the first application has already changed; with type checks
  off (a production build) only the instantiation applies it. No action has run on the
  new model, so the derived attributes are unset.
\<close>

definition optional :: "'a option \<Rightarrow> 'a \<Rightarrow> 'a" where
  "optional v d = (case v of None \<Rightarrow> d | Some x \<Rightarrow> x)"

definition enumeration :: "jsattr \<Rightarrow> error + string" where
  "enumeration v =
     (case v of
        AUndefined \<Rightarrow> Inr ''curveStep''
      | AStr s \<Rightarrow> if s \<in> set (map snd csMap) then Inr s else Inl LibError
      | AObject \<Rightarrow> Inl LibError)"

definition instantiate :: "snapshot \<Rightarrow> error + channel" where
  "instantiate snapshot0 =
     (let snapshot = preProcessSnapshot snapshot0
      in case enumeration (s_interpolation snapshot) of
           Inl e \<Rightarrow> Inl e
         | Inr interp \<Rightarrow>
             Inr \<lparr>displayname = s_displayname snapshot,
                  units = s_units snapshot,
                  unitsformat = optional (s_unitsformat snapshot) ''.1f'',
                  caption = optional (s_caption snapshot) True,
                  interpolation = interp,
                  showgrid = optional (s_showgrid snapshot) False,
                  showtracker = optional (s_showtracker snapshot) True,
                  height = optional (s_height snapshot) ''200'',
                  opacity = optional (s_opacity snapshot) ''0.8'',
                  strokewidth = optional (s_strokewidth snapshot) ''1'',
                  strokecolor = optional (s_strokecolor snapshot) ''#000000'',
                  value = s_value snapshot,
                  tracker = None,
                  v_value = None, v_series = None,
                  v_avg = None, v_max = None, v_min = None,
                  v_minTime = None, v_maxTime = None\<rparr>)"

definition create :: "bool \<Rightarrow> snapshot \<Rightarrow> error + channel" where
  "create typechecks snapshot =
     (if typechecks then
        (let validated = preProcessSnapshot snapshot
         in case enumeration (s_interpolation validated) of
              Inl e \<Rightarrow> Inl e
            | Inr _ \<Rightarrow> instantiate validated)
      else instantiate snapshot)"

subsection \<open>The actions\<close>

text \<open>\<open>handleTrackerChanged\<close> (lines 118-121) writes the tracker and calls the parent.\<close>

definition handleTrackerChanged ::
  "int option \<Rightarrow> channel \<times> timeseries_model \<Rightarrow> channel \<times> timeseries_model" where
  "handleTrackerChanged t st =
     (case st of (self, parent) \<Rightarrow> (self\<lparr>tracker := t\<rparr>, updateView parent))"

text \<open>
  The loop of \<open>updateValue\<close> (lines 126-130):
  \<^verbatim>\<open>
  for (let i = 0; i <= self.parent._value[0][i]; i++) {
    points.push([self.parent._value[0][i], self._value[0][i]]);
  }
  \<close>
  It runs while the index is at most the time sample at that index, and stops at the end
  of the array, where the sample is \<open>undefined\<close> and the comparison is false. Indexing
  \<open>self._value[0]\<close> throws when \<open>self._value\<close> has no first element.
\<close>

function points_loop ::
  "int list \<Rightarrow> jsval list option \<Rightarrow> nat \<Rightarrow> event list \<Rightarrow> error + event list" where
  "points_loop stamps vals i points =
     (case index stamps i of
        None \<Rightarrow> Inr points
      | Some t \<Rightarrow>
          if int i \<le> t then
            (case vals of
               None \<Rightarrow> Inl TypeError
             | Some vs \<Rightarrow> points_loop stamps vals (i + 1) (points @ [(t, index_val vs i)]))
          else Inr points)"
  by pat_completeness auto
termination
  by (relation "measure (\<lambda>(stamps, vals, i, points). length stamps - i)")
     (auto simp: index_def split: if_splits)

text \<open>
  \<open>updateValue\<close> (lines 123-145). \<open>runTemplate\<close> is a parameter; \<open>store\<close> stands for
  \<open>store.task.dataObj\<close>. \<open>self.value\<close> names the column of the series (line 133) and is
  the field path of the three aggregations (lines 138-140). Each field is assigned where
  the source assigns it, so the model returned with an exception holds the assignments
  made before the throw.
\<close>

definition updateValue ::
  "(string option \<Rightarrow> 'd \<Rightarrow> jsval list list) \<Rightarrow> 'd \<Rightarrow> timeseries_model \<Rightarrow> channel
     \<Rightarrow> channel \<times> error option" where
  "updateValue runTemplate store parent self =
     (let raw = runTemplate (value self) store;
          self1 = self\<lparr>v_value := Some raw\<rparr>
      in case index (parent_value parent) 0 of
           None \<Rightarrow> (self1, Some TypeError)
         | Some stamps \<Rightarrow>
             (case points_loop stamps (index raw 0) 0 [] of
                Inl e \<Rightarrow> (self1, Some e)
              | Inr points \<Rightarrow>
                  (case TimeSeries (value self) points of
                     Inl e \<Rightarrow> (self1, Some e)
                   | Inr series \<Rightarrow>
                       (case avg series (value self) of
                          Inl e \<Rightarrow> (self1, Some e)
                        | Inr a \<Rightarrow>
                            (let self2 = self1\<lparr>v_avg := Some (parseInt10 a)\<rparr>
                             in case max_series series (value self) of
                                  Inl e \<Rightarrow> (self2, Some e)
                                | Inr mx \<Rightarrow>
                                    (let self3 = self2\<lparr>v_max := Some (parseInt10 mx)\<rparr>
                                     in case min_series series (value self) of
                                          Inl e \<Rightarrow> (self3, Some e)
                                        | Inr mn \<Rightarrow>
                                            (let self4 = self3\<lparr>v_min := Some (parseInt10 mn),
                                                               v_series := Some series\<rparr>
                                             in case range_series series of
                                                  None \<Rightarrow> (self4, Some TypeError)
                                                | Some r \<Rightarrow>
                                                    (self4\<lparr>v_minTime := Some (fst r),
                                                           v_maxTime := Some (snd r)\<rparr>,
                                                     None))))))))"

subsection \<open>The view\<close>

text \<open>
  \<open>getValue\<close> (lines 220-232). The numbers of the dates are subtracted, divided and
  multiplied as doubles; the quotient \<open>approx\<close> is \<open>NaN\<close> or infinite when the time range
  has no duration. Only the lookup \<open>series.at(i).get(item.value)\<close> is inside the \<open>try\<close>;
  reading \<open>.get\<close> of \<open>undefined\<close> throws there like a failed \<open>at\<close>.
\<close>

fun to_index :: "jsval \<Rightarrow> jsindex" where
  "to_index (Num x) = Idx \<lfloor>x\<rfloor>"
| "to_index Infinity = PosInf"
| "to_index NegInfinity = NegInf"
| "to_index NaN = IdxNaN"
| "to_index _ = IdxUndefined"

definition start_index :: "int \<Rightarrow> int \<times> int \<Rightarrow> nat \<Rightarrow> jsindex" where
  "start_index t timerange n =
     (case timerange of (b, e) \<Rightarrow>
        (let approx = js_div (js_sub (Num (of_int t)) (Num (of_int b)))
                             (js_sub (Num (of_int e)) (Num (of_int b)))
         in to_index (floor_number (js_mul approx (Num (of_nat n))))))"

definition getValue :: "int \<times> int \<Rightarrow> channel \<Rightarrow> error + jsval" where
  "getValue timerange item =
     (case tracker item of
        None \<Rightarrow> Inr Undefined
      | Some t \<Rightarrow>
          (case v_series item of
             None \<Rightarrow> Inl TypeError
           | Some series \<Rightarrow>
               (let ii = start_index t timerange (size_series series)
                in case bisect series t ii of
                     Inl e \<Rightarrow> Inl e
                   | Inr i \<Rightarrow>
                       (case at_series series i of
                          Inl e \<Rightarrow> Inr Null
                        | Inr None \<Rightarrow> Inr Null
                        | Inr (Some ev) \<Rightarrow> Inr (get_field series ev (value item))))))"

text \<open>
  What the view hands to the chart: of the rendered tree, the tracker position, the time
  bounds and grid flag of the chart container, the interpolation of the line, and the
  bounds of the label axis. The view returns \<open>null\<close> (\<open>None\<close>) before the first update.
  It calls \<open>getValue\<close> (line 234), then reads the range of \<open>item._series\<close> (line 249,
  used on lines 268-269); the second call of \<open>getValue\<close> (line 253) repeats the first.
  The number formatting of the summary and the brush handlers are not part of the model.
\<close>

record rendered =
  trackerPosition :: "int option"
  maxTime :: int
  minTime :: int
  showGrid :: bool
  line_interpolation :: string
  axis_min :: "jsval option"
  axis_max :: "jsval option"

definition HtxTimeSeriesChannelView ::
  "timeseries_model \<Rightarrow> channel \<Rightarrow> error + rendered option" where
  "HtxTimeSeriesChannelView parent item =
     (if v_value item = None then Inr None
      else case getValue (initialRange parent) item of
             Inl e \<Rightarrow> Inl e
           | Inr uval \<Rightarrow>
               (let showtracker' = (showtracker item \<and> truthy uval)
                in case v_series item of
                     None \<Rightarrow> Inl TypeError
                   | Some series \<Rightarrow>
                       (case range_series series of
                          None \<Rightarrow> Inl TypeError
                        | Some r \<Rightarrow>
                            Inr (Some \<lparr>trackerPosition =
                                         (if showtracker' then tracker item else None),
                                       maxTime = snd r,
                                       minTime = fst r,
                                       showGrid = showgrid item,
                                       line_interpolation = interpolation item,
                                       axis_min = v_min item,
                                       axis_max = v_max item\<rparr>))))"

subsection \<open>Notions used to state the properties\<close>

text \<open>
  The points the loop of \<open>updateValue\<close> builds from index \<open>i\<close> on, as a function of
  the remaining time samples: the loop equals it (lemma \<open>points_loop_Some\<close>).
\<close>

fun points_from :: "nat \<Rightarrow> int list \<Rightarrow> jsval list \<Rightarrow> event list" where
  "points_from i [] vs = []"
| "points_from i (t # ts) vs =
     (if int i \<le> t then (t, index_val vs i) # points_from (Suc i) ts vs else [])"

text \<open>
  The points of the raw array: for each sample index of the parent's array of time
  samples, the time sample and the channel's value at that index.
\<close>

definition array_points :: "int list \<Rightarrow> jsval list \<Rightarrow> event list" where
  "array_points stamps vs = map (\<lambda>j. (stamps ! j, index_val vs j)) [0..<length stamps]"

text \<open>The model after a run of \<open>updateValue\<close> that assigned every derived attribute.\<close>

definition updated ::
  "channel \<Rightarrow> jsval list list \<Rightarrow> series \<Rightarrow> jsval \<Rightarrow> jsval \<Rightarrow> jsval \<Rightarrow> int \<times> int \<Rightarrow> channel" where
  "updated self raw s a mx mn r =
     self\<lparr>v_value := Some raw,
          v_avg := Some (parseInt10 a),
          v_max := Some (parseInt10 mx),
          v_min := Some (parseInt10 mn),
          v_series := Some s,
          v_minTime := Some (fst r),
          v_maxTime := Some (snd r)\<rparr>"

text \<open>
  The finite numbers among the values of some points, and the minimum, maximum and
  average computed directly over them, as the specification words them: the least and
  the greatest of the numbers, and their sum, added up in order, divided by their count,
  in the arithmetic of JavaScript.
\<close>

fun numbers_of :: "jsval list \<Rightarrow> rat list" where
  "numbers_of [] = []"
| "numbers_of (Num x # vs) = x # numbers_of vs"
| "numbers_of (_ # vs) = numbers_of vs"

fun finite_or_missing :: "jsval \<Rightarrow> bool" where
  "finite_or_missing Infinity = False"
| "finite_or_missing NegInfinity = False"
| "finite_or_missing _ = True"

definition direct_min :: "rat list \<Rightarrow> rat" where
  "direct_min xs = Min (set xs)"

definition direct_max :: "rat list \<Rightarrow> rat" where
  "direct_max xs = Max (set xs)"

definition direct_avg :: "rat list \<Rightarrow> jsval" where
  "direct_avg xs =
     js_div (foldl (\<lambda>a x. js_add a (Num x)) (Num 0) xs) (Num (of_nat (length xs)))"

text \<open>A stored statistic is integer-valued when it is a number without fractional part.\<close>

definition integer_valued :: "jsval option \<Rightarrow> bool" where
  "integer_valued v = (case v of Some (Num x) \<Rightarrow> of_int \<lfloor>x\<rfloor> = x | _ \<Rightarrow> False)"

text \<open>A model on which only tracker changes have run since it was created.\<close>

definition track_all ::
  "int option list \<Rightarrow> channel \<times> timeseries_model \<Rightarrow> channel \<times> timeseries_model" where
  "track_all ts st = foldl (\<lambda>st t. handleTrackerChanged t st) st ts"

text \<open>
  Concrete inputs for the examples: a snapshot that gives only the value template
  \<open>$sensor1\<close>, the channel created from it, a \<open>runTemplate\<close> whose store holds the
  extracted raw value itself, and a parent with given time samples and the time range
  \<open>[0, 10]\<close>.
\<close>

definition sensor_snapshot :: snapshot where
  "sensor_snapshot =
     \<lparr>s_displayname = None, s_units = None, s_unitsformat = None, s_caption = None,
      s_interpolation = AUndefined, s_showgrid = None, s_showtracker = None,
      s_height = None, s_opacity = None, s_strokewidth = None, s_strokecolor = None,
      s_value = Some ''$sensor1''\<rparr>"

definition sensor_channel :: channel where
  "sensor_channel =
     \<lparr>displayname = None, units = None, unitsformat = ''.1f'', caption = True,
      interpolation = ''curveStep'', showgrid = False, showtracker = True,
      height = ''200'', opacity = ''0.8'', strokewidth = ''1'',
      strokecolor = ''#000000'', value = Some ''$sensor1'', tracker = None,
      v_value = None, v_series = None, v_avg = None, v_max = None, v_min = None,
      v_minTime = None, v_maxTime = None\<rparr>"

definition rawTemplate :: "string option \<Rightarrow> jsval list list \<Rightarrow> jsval list list" where
  "rawTemplate v store = store"

definition parent_of :: "int list \<Rightarrow> timeseries_model" where
  "parent_of stamps = \<lparr>parent_value = [stamps], initialRange = (0, 10), v_needsUpdate = 0\<rparr>"

declare ndigits.simps [simp del] points_loop.simps [simp del] bisect_from.simps [simp del] parseInt10.simps [simp del]

section \<open>Properties\<close>

subsection \<open>The loop of \<open>updateValue\<close>\<close>

lemma index_0: "index xs 0 = (case xs of [] \<Rightarrow> None | x # _ \<Rightarrow> Some x)"
  by (cases xs) (simp_all add: index_def)

lemma points_loop_Some:
  "i \<le> length stamps \<Longrightarrow>
   points_loop stamps (Some vs) i acc = Inr (acc @ points_from i (drop i stamps) vs)"
proof (induction "length stamps - i" arbitrary: i acc)
  case 0
  then have "i = length stamps" by simp
  then show ?case
    by (simp add: points_loop.simps[of stamps _ "length stamps"] index_def)
next
  case (Suc n)
  then have lt: "i < length stamps" by simp
  then have d: "drop i stamps = stamps ! i # drop (Suc i) stamps"
    by (simp add: Cons_nth_drop_Suc)
  have n: "n = length stamps - Suc i" using Suc.hyps(2) by simp
  show ?case
  proof (cases "int i \<le> stamps ! i")
    case True
    have "points_loop stamps (Some vs) i acc =
          points_loop stamps (Some vs) (Suc i) (acc @ [(stamps ! i, index_val vs i)])"
      using lt True by (simp add: points_loop.simps[of stamps _ i] index_def)
    also have "\<dots> = Inr ((acc @ [(stamps ! i, index_val vs i)]) @
                          points_from (Suc i) (drop (Suc i) stamps) vs)"
      using Suc.hyps(1)[OF n] lt by simp
    finally show ?thesis using d True by simp
  next
    case False
    then show ?thesis
      using lt d by (simp add: points_loop.simps[of stamps _ i] index_def)
  qed
qed

lemma points_loop_None:
  "points_loop stamps None 0 acc =
     (case stamps of [] \<Rightarrow> Inr acc | t # ts \<Rightarrow> if 0 \<le> t then Inl TypeError else Inr acc)"
  by (cases stamps) (simp_all add: points_loop.simps[of _ _ 0] index_def)

text \<open>
  When every time sample is at least its index (as epoch milliseconds of recent dates
  are), the loop pairs each sample with the value at the same index: it builds the
  points of the raw array. Otherwise it stops early and the series is shorter than the
  array.
\<close>

lemma points_from_all:
  "(\<forall>j < length ts. int (i + j) \<le> ts ! j) \<Longrightarrow>
   points_from i ts vs = map (\<lambda>j. (ts ! j, index_val vs (i + j))) [0..<length ts]"
proof (induction ts arbitrary: i)
  case Nil
  then show ?case by simp
next
  case (Cons t ts)
  have h0: "int i \<le> t" using Cons.prems by force
  have "\<forall>j<length ts. int (Suc i + j) \<le> ts ! j"
  proof (intro allI impI)
    fix j assume "j < length ts"
    then have "int (i + Suc j) \<le> (t # ts) ! Suc j"
      using Cons.prems by (metis Suc_less_eq length_Cons)
    then show "int (Suc i + j) \<le> ts ! j" by simp
  qed
  from Cons.IH[OF this]
  have IH: "points_from (Suc i) ts vs =
            map (\<lambda>j. (ts ! j, index_val vs (Suc i + j))) [0..<length ts]" .
  have u: "[Suc 0..<Suc (length ts)] = map Suc [0..<length ts]"
    by (simp only: map_Suc_upt)
  show ?case using h0 IH
    by (simp add: upt_conv_Cons u del: upt_Suc)
qed

lemma points_from_array:
  "(\<forall>j < length stamps. int j \<le> stamps ! j) \<Longrightarrow> points_from 0 stamps vs = array_points stamps vs"
  using points_from_all[of stamps 0 vs] by (simp add: array_points_def)

lemma length_points_from: "length (points_from i ts vs) \<le> length ts"
  by (induction ts arbitrary: i) auto

lemma points_from_short:
  "length (points_from i ts vs) < length ts \<longleftrightarrow> (\<exists>j < length ts. ts ! j < int (i + j))"
proof (induction ts arbitrary: i)
  case Nil
  then show ?case by simp
next
  case (Cons t ts)
  show ?case
  proof (cases "int i \<le> t")
    case True
    have "(\<exists>j<length (t # ts). (t # ts) ! j < int (i + j)) \<longleftrightarrow>
          (\<exists>j<length ts. ts ! j < int (Suc i + j))"
      using True by (auto simp: less_Suc_eq_0_disj)
    then show ?thesis using True Cons.IH[of "Suc i"] by simp
  next
    case False
    then show ?thesis by auto
  qed
qed

subsection \<open>Runs of \<open>updateValue\<close> that complete\<close>

lemma isChronological_sorted: "isChronological es \<longleftrightarrow> sorted (map fst es)"
  by (induction es rule: isChronological.induct) auto

lemma range_series_None: "range_series s = None \<longleftrightarrow> events s = []"
  by (simp add: range_series_def split: list.splits)

lemma aggregate_Some:
  "aggregate reducer s None = Inl LibError"
  "events s \<noteq> [] \<Longrightarrow>
   aggregate reducer s (Some f) = Inr (reducer (map (\<lambda>ev. get_field s ev (Some f)) (events s)))"
  "events s = [] \<Longrightarrow> aggregate reducer s (Some f) = Inr Undefined"
  by (simp_all add: aggregate_def)

lemma updateValue_completed:
  assumes "updateValue rt store parent self = (self', None)"
  shows "\<exists>stamps rest vs rest' c a mx mn r.
           parent_value parent = stamps # rest \<and> rt (value self) store = vs # rest' \<and>
           value self = Some c \<and>
           points_from 0 stamps vs \<noteq> [] \<and> isChronological (points_from 0 stamps vs) \<and>
           avg \<lparr>column_name = Some c, events = points_from 0 stamps vs\<rparr> (Some c) = Inr a \<and>
           max_series \<lparr>column_name = Some c, events = points_from 0 stamps vs\<rparr> (Some c) = Inr mx \<and>
           min_series \<lparr>column_name = Some c, events = points_from 0 stamps vs\<rparr> (Some c) = Inr mn \<and>
           range_series \<lparr>column_name = Some c, events = points_from 0 stamps vs\<rparr> = Some r \<and>
           self' = updated self (vs # rest')
                     \<lparr>column_name = Some c, events = points_from 0 stamps vs\<rparr> a mx mn r"
proof -
  obtain stamps rest where p: "parent_value parent = stamps # rest"
    using assms by (cases "parent_value parent") (auto simp: updateValue_def Let_def index_0)
  let ?raw = "rt (value self) store"
  obtain pts where l: "points_loop stamps (index ?raw 0) 0 [] = Inr pts"
    using assms p
    by (cases "points_loop stamps (index ?raw 0) 0 []")
       (auto simp: updateValue_def Let_def index_0)
  obtain s where s: "TimeSeries (value self) pts = Inr s"
    using assms p l
    by (cases "TimeSeries (value self) pts") (auto simp: updateValue_def Let_def index_0)
  then have chron: "isChronological pts" and s_def: "s = \<lparr>column_name = value self, events = pts\<rparr>"
    by (auto simp: TimeSeries_def split: if_splits)
  obtain a where a: "avg s (value self) = Inr a"
    using assms p l s
    by (cases "avg s (value self)") (auto simp: updateValue_def Let_def index_0)
  obtain mx where mx: "max_series s (value self) = Inr mx"
    using assms p l s a
    by (cases "max_series s (value self)") (auto simp: updateValue_def Let_def index_0)
  obtain mn where mn: "min_series s (value self) = Inr mn"
    using assms p l s a mx
    by (cases "min_series s (value self)") (auto simp: updateValue_def Let_def index_0)
  obtain r where r: "range_series s = Some r"
    using assms p l s a mx mn
    by (cases "range_series s") (auto simp: updateValue_def Let_def index_0)
  then have ne: "pts \<noteq> []" using s_def by (auto simp: range_series_def)
  have self': "self' = updated self ?raw s a mx mn r"
    using assms p l s a mx mn r by (simp add: updateValue_def Let_def index_0 updated_def)
  obtain c where c: "value self = Some c"
    using a by (cases "value self") (auto simp: avg_def aggregate_def)
  obtain vs rest' where raw: "?raw = vs # rest'"
  proof (cases ?raw)
    case Nil
    then have "points_loop stamps None 0 [] = Inr pts" using l by (simp add: index_0)
    then have "pts = []" by (simp add: points_loop_None split: list.splits if_splits)
    then show ?thesis using ne by simp
  next
    case (Cons a list)
    then show ?thesis using that by simp
  qed
  then have "pts = points_from 0 stamps vs"
    using l points_loop_Some[of 0 stamps vs "[]"] by (simp add: index_0)
  then have "parent_value parent = stamps # rest \<and> rt (value self) store = vs # rest' \<and>
           value self = Some c \<and>
           points_from 0 stamps vs \<noteq> [] \<and> isChronological (points_from 0 stamps vs) \<and>
           avg \<lparr>column_name = Some c, events = points_from 0 stamps vs\<rparr> (Some c) = Inr a \<and>
           max_series \<lparr>column_name = Some c, events = points_from 0 stamps vs\<rparr> (Some c) = Inr mx \<and>
           min_series \<lparr>column_name = Some c, events = points_from 0 stamps vs\<rparr> (Some c) = Inr mn \<and>
           range_series \<lparr>column_name = Some c, events = points_from 0 stamps vs\<rparr> = Some r \<and>
           self' = updated self (vs # rest')
                     \<lparr>column_name = Some c, events = points_from 0 stamps vs\<rparr> a mx mn r"
    using p raw ne chron r s_def self' c a mx mn by simp
  then show ?thesis by blast
qed

lemma completed_run:
  assumes "snd (updateValue rt store parent self) = None"
  shows "\<exists>stamps rest vs rest' c a mx mn r.
           parent_value parent = stamps # rest \<and> rt (value self) store = vs # rest' \<and>
           value self = Some c \<and>
           points_from 0 stamps vs \<noteq> [] \<and> isChronological (points_from 0 stamps vs) \<and>
           avg \<lparr>column_name = Some c, events = points_from 0 stamps vs\<rparr> (Some c) = Inr a \<and>
           max_series \<lparr>column_name = Some c, events = points_from 0 stamps vs\<rparr> (Some c) = Inr mx \<and>
           min_series \<lparr>column_name = Some c, events = points_from 0 stamps vs\<rparr> (Some c) = Inr mn \<and>
           range_series \<lparr>column_name = Some c, events = points_from 0 stamps vs\<rparr> = Some r \<and>
           fst (updateValue rt store parent self)
             = updated self (vs # rest')
                 \<lparr>column_name = Some c, events = points_from 0 stamps vs\<rparr> a mx mn r"
proof -
  have "updateValue rt store parent self = (fst (updateValue rt store parent self), None)"
    using assms by (metis prod.collapse)
  from updateValue_completed[OF this] show ?thesis .
qed

subsection \<open>The aggregations and the range, computed directly\<close>

text \<open>
  A field path without a dot that is the name of the column reads the value of each
  event; a dotted one reads nothing. Missing values are left out of the aggregation.
  Over values that are finite numbers or missing, the maximum and the minimum of a
  column with at least one number are the greatest and the least of its numbers, and the
  average is their sum, added in order, divided by their count.
\<close>

lemma get_field_column:
  "CHR ''.'' \<notin> set c \<Longrightarrow> get_field \<lparr>column_name = Some c, events = es\<rparr> ev (Some c) = snd ev"
  by (simp add: get_field_def column_key_def)

lemma get_field_dotted:
  "CHR ''.'' \<in> set f \<Longrightarrow> get_field s ev (Some f) = Undefined"
  by (simp add: get_field_def)

lemma ignoreMissing_numbers:
  "\<forall>v \<in> set vs. finite_or_missing v \<Longrightarrow> ignoreMissing vs = map Num (numbers_of vs)"
proof (induction vs)
  case Nil
  then show ?case by simp
next
  case (Cons v vs)
  then show ?case by (cases v) simp_all
qed

lemma foldl_max_conv:
  "foldl (\<lambda>result v. if v > result then v else result) (x::rat) xs = Max (set (x # xs))"
proof -
  have "(\<lambda>v result. if v > result then v else result) = (max :: rat \<Rightarrow> rat \<Rightarrow> rat)"
    by (auto simp: fun_eq_iff max_def)
  moreover have "fold max xs x = Max (set (x # xs))" by (simp only: Max.set_eq_fold)
  ultimately show ?thesis by (simp only: foldl_conv_fold)
qed

lemma foldl_min_conv:
  "foldl (\<lambda>result v. if v < result then v else result) (x::rat) xs = Min (set (x # xs))"
proof -
  have "(\<lambda>v result. if v < result then v else result) = (min :: rat \<Rightarrow> rat \<Rightarrow> rat)"
    by (auto simp: fun_eq_iff min_def)
  moreover have "fold min xs x = Min (set (x # xs))" by (simp only: Min.set_eq_fold)
  ultimately show ?thesis by (simp only: foldl_conv_fold)
qed

lemma foldl_js_max:
  "foldl (\<lambda>result v. if js_less result v then v else result) (Num a) (map Num xs)
     = Num (foldl (\<lambda>result v. if v > result then v else result) a xs)"
  by (induction xs arbitrary: a) (simp_all add: js_less_def)

lemma foldl_js_min:
  "foldl (\<lambda>result v. if js_less v result then v else result) (Num a) (map Num xs)
     = Num (foldl (\<lambda>result v. if v < result then v else result) a xs)"
  by (induction xs arbitrary: a) (simp_all add: js_less_def)

lemma max_reducer_numbers:
  assumes "\<forall>v \<in> set vs. finite_or_missing v" and "numbers_of vs \<noteq> []"
  shows "max_reducer vs = Num (direct_max (numbers_of vs))"
proof -
  obtain x xs where xs: "numbers_of vs = x # xs" using assms(2) by (cases "numbers_of vs") auto
  have "js_less NegInfinity (Num x)" by (simp add: js_less_def)
  then have "foldl (\<lambda>result v. if js_less result v then v else result) NegInfinity (map Num (x # xs))
          = Num (Max (set (x # xs)))"
    by (simp add: foldl_js_max foldl_max_conv del: set_simps Max.insert)
  then show ?thesis
    using ignoreMissing_numbers[OF assms(1)] xs by (simp add: max_reducer_def direct_max_def)
qed

lemma min_reducer_numbers:
  assumes "\<forall>v \<in> set vs. finite_or_missing v" and "numbers_of vs \<noteq> []"
  shows "min_reducer vs = Num (direct_min (numbers_of vs))"
proof -
  obtain x xs where xs: "numbers_of vs = x # xs" using assms(2) by (cases "numbers_of vs") auto
  have "js_less (Num x) Infinity" by (simp add: js_less_def)
  then have "foldl (\<lambda>result v. if js_less v result then v else result) Infinity (map Num (x # xs))
          = Num (Min (set (x # xs)))"
    by (simp add: foldl_js_min foldl_min_conv del: set_simps Min.insert)
  then show ?thesis
    using ignoreMissing_numbers[OF assms(1)] xs by (simp add: min_reducer_def direct_min_def)
qed

lemma avg_reducer_numbers:
  assumes "\<forall>v \<in> set vs. finite_or_missing v"
  shows "avg_reducer vs = direct_avg (numbers_of vs)"
  using ignoreMissing_numbers[OF assms]
  by (simp add: avg_reducer_def direct_avg_def Let_def foldl_map)

lemma reducers_finite:
  "max_reducer vs = Undefined \<or> (\<exists>x. max_reducer vs = Num x)"
  "min_reducer vs = Undefined \<or> (\<exists>x. min_reducer vs = Num x)"
proof -
  show "max_reducer vs = Undefined \<or> (\<exists>x. max_reducer vs = Num x)"
    by (cases "foldl (\<lambda>result v. if js_less result v then v else result) NegInfinity (ignoreMissing vs)")
       (simp_all add: max_reducer_def)
  show "min_reducer vs = Undefined \<or> (\<exists>x. min_reducer vs = Num x)"
    by (cases "foldl (\<lambda>result v. if js_less v result then v else result) Infinity (ignoreMissing vs)")
       (simp_all add: min_reducer_def)
qed

lemma foldl_min_time:
  "foldl (\<lambda>mn ev. if fst ev < mn then fst ev else mn) (t::int) es = Min (insert t (fst ` set es))"
proof -
  have "foldl (\<lambda>mn ev. if fst ev < mn then fst ev else mn) t es
        = foldl (\<lambda>mn v. if v < mn then v else mn) t (map fst es)"
    by (simp add: foldl_map)
  also have "\<dots> = fold min (map fst es) t"
  proof -
    have "(\<lambda>v mn. if v < mn then v else mn) = (min :: int \<Rightarrow> int \<Rightarrow> int)"
      by (auto simp: fun_eq_iff min_def)
    then show ?thesis by (simp add: foldl_conv_fold)
  qed
  also have "\<dots> = Min (set (t # map fst es))" by (simp only: Min.set_eq_fold)
  finally show ?thesis by simp
qed

lemma foldl_max_time:
  "foldl (\<lambda>mx ev. if fst ev > mx then fst ev else mx) (t::int) es = Max (insert t (fst ` set es))"
proof -
  have "foldl (\<lambda>mx ev. if fst ev > mx then fst ev else mx) t es
        = foldl (\<lambda>mx v. if v > mx then v else mx) t (map fst es)"
    by (simp add: foldl_map)
  also have "\<dots> = fold max (map fst es) t"
  proof -
    have "(\<lambda>v mx. if v > mx then v else mx) = (max :: int \<Rightarrow> int \<Rightarrow> int)"
      by (auto simp: fun_eq_iff max_def)
    then show ?thesis by (simp add: foldl_conv_fold)
  qed
  also have "\<dots> = Max (set (t # map fst es))" by (simp only: Max.set_eq_fold)
  finally show ?thesis by simp
qed

lemma range_series_Some:
  "events s \<noteq> [] \<Longrightarrow>
   range_series s = Some (Min (fst ` set (events s)), Max (fst ` set (events s)))"
  by (cases "events s") (simp_all add: range_series_def foldl_min_time foldl_max_time del: Min.insert Max.insert)

lemma sorted_Min_hd: "sorted (xs::int list) \<Longrightarrow> xs \<noteq> [] \<Longrightarrow> Min (set xs) = hd xs"
  by (cases xs) (auto intro!: Min_eqI)

lemma sorted_Max_last: "sorted (xs::int list) \<Longrightarrow> xs \<noteq> [] \<Longrightarrow> Max (set xs) = last xs"
proof (rule Max_eqI)
  fix y assume s: "sorted xs" and ne: "xs \<noteq> []" and y: "y \<in> set xs"
  then obtain i where i: "i < length xs" "xs ! i = y" by (auto simp: in_set_conv_nth)
  then have "xs ! i \<le> xs ! (length xs - 1)" using s by (intro sorted_nth_mono) auto
  then show "y \<le> last xs" using i ne by (simp add: last_conv_nth)
qed auto

lemma chronological_bounds:
  assumes "isChronological es" "es \<noteq> []"
  shows "Min (fst ` set es) = fst (hd es) \<and> Max (fst ` set es) = fst (last es)"
proof -
  have s: "sorted (map fst es)" using assms(1) by (simp add: isChronological_sorted)
  have ne: "map fst es \<noteq> []" using assms(2) by simp
  show ?thesis
    using sorted_Min_hd[OF s ne] sorted_Max_last[OF s ne] assms(2)
    by (simp add: hd_map last_map)
qed

subsection \<open>\<open>parseInt\<close> of a statistic\<close>

lemma trunc_of_int: "trunc (of_int k) = k"
  by (simp add: trunc_def)

lemma least_decimal: "round_double (1 / 10 ^ 6) \<le> 1"
  by code_simp

lemma decimal_notation_of_int: "\<bar>k\<bar> < 10 ^ 21 \<Longrightarrow> decimal_notation (of_int k)"
proof -
  assume a: "\<bar>k\<bar> < 10 ^ 21"
  then have "\<bar>of_int k :: rat\<bar> < 10 ^ 21"
    by (metis of_int_abs of_int_less_iff of_int_numeral of_int_power)
  moreover have "k \<noteq> 0 \<Longrightarrow> round_double (1 / 10 ^ 6) \<le> \<bar>of_int k\<bar>"
  proof -
    assume "k \<noteq> 0"
    then have "1 \<le> \<bar>k\<bar>" by simp
    then have "(1::rat) \<le> \<bar>of_int k\<bar>" by (metis of_int_abs of_int_le_iff of_int_1)
    then show ?thesis using least_decimal by linarith
  qed
  ultimately show ?thesis by (auto simp: decimal_notation_def)
qed

lemma parseInt10_integer:
  "x \<in> \<int> \<Longrightarrow> \<bar>x\<bar> < 10 ^ 21 \<Longrightarrow> parseInt10 (Num x) = Num x"
proof -
  assume "x \<in> \<int>" and b: "\<bar>x\<bar> < 10 ^ 21"
  then obtain k where k: "x = of_int k" by (auto elim: Ints_cases)
  then have "\<bar>k\<bar> < 10 ^ 21" using b
    by (metis of_int_abs of_int_less_iff of_int_numeral of_int_power)
  then show ?thesis using k by (simp add: parseInt10.simps decimal_notation_of_int trunc_of_int)
qed

lemma parseInt10_Num: "\<exists>k. parseInt10 (Num x) = Num (of_int k)"
proof (cases "decimal_notation x")
  case True
  then show ?thesis by (auto simp: parseInt10.simps)
next
  case False
  then have "parseInt10 (Num x) = Num (of_int ((if x < 0 then - 1 else 1) * first_digit \<bar>x\<bar>))"
    by (simp add: parseInt10.simps)
  then show ?thesis by blast
qed

lemma parseInt10_not_finite: "\<not> isFinite v \<Longrightarrow> parseInt10 v = NaN"
  by (cases v) (simp_all add: parseInt10.simps)

lemma parseInt10_integer_valued: "integer_valued (Some (parseInt10 (Num x)))"
  using parseInt10_Num[of x] by (auto simp: integer_valued_def)

lemma trunc_discards_fraction:
  "\<bar>of_int (trunc x)\<bar> \<le> \<bar>x\<bar> \<and> \<bar>x - of_int (trunc x)\<bar> < 1"
proof (cases "0 \<le> x")
  case True
  have t: "trunc x = \<lfloor>x\<rfloor>" using True by (simp add: trunc_def)
  have a: "of_int \<lfloor>x\<rfloor> \<le> x" and b: "x < of_int \<lfloor>x\<rfloor> + 1"
    using floor_correct[of x] by auto
  have c: "(0::rat) \<le> of_int \<lfloor>x\<rfloor>" using True by simp
  show ?thesis unfolding t using a b c True by (intro conjI; linarith)
next
  case False
  have t: "trunc x = \<lceil>x\<rceil>" using False by (simp add: trunc_def)
  have a: "x \<le> of_int \<lceil>x\<rceil>" and b: "of_int \<lceil>x\<rceil> - 1 < x"
    using ceiling_correct[of x] by auto
  have c: "of_int \<lceil>x\<rceil> \<le> (0::rat)" using False by simp
  show ?thesis unfolding t using a b c False by (intro conjI; linarith)
qed

subsection \<open>Claims about the actions\<close>

text \<open>
  C7. For every tracker position \<open>t\<close>, \<open>handleTrackerChanged(t)\<close> sets the tracker of the
  model to \<open>t\<close> and signals the parent to re-render, and changes no other field of the
  channel model: the resulting model is the old one with only the tracker replaced, so
  the series, the statistics, the time bounds and every tag attribute are unchanged. Of
  the parent only the re-render counter changes.
\<close>

theorem handleTrackerChanged_frame:
  "tracker (fst (handleTrackerChanged t (self, parent))) = t \<and>
   snd (handleTrackerChanged t (self, parent)) = updateView parent \<and>
   v_needsUpdate (snd (handleTrackerChanged t (self, parent))) = v_needsUpdate parent + 1 \<and>
   fst (handleTrackerChanged t (self, parent)) = self\<lparr>tracker := t\<rparr> \<and>
   (fst (handleTrackerChanged t (self, parent)))\<lparr>tracker := tracker self\<rparr> = self \<and>
   v_value (fst (handleTrackerChanged t (self, parent))) = v_value self \<and>
   v_series (fst (handleTrackerChanged t (self, parent))) = v_series self \<and>
   v_min (fst (handleTrackerChanged t (self, parent))) = v_min self \<and>
   v_max (fst (handleTrackerChanged t (self, parent))) = v_max self \<and>
   v_avg (fst (handleTrackerChanged t (self, parent))) = v_avg self \<and>
   v_minTime (fst (handleTrackerChanged t (self, parent))) = v_minTime self \<and>
   v_maxTime (fst (handleTrackerChanged t (self, parent))) = v_maxTime self \<and>
   parent_value (snd (handleTrackerChanged t (self, parent))) = parent_value parent \<and>
   initialRange (snd (handleTrackerChanged t (self, parent))) = initialRange parent"
  by (simp add: handleTrackerChanged_def updateView_def)

text \<open>
  When the loop keeps every sample, the points are the points of the raw array: one per
  sample, the time sample at each index paired with the channel's value at that index.
\<close>

lemma points_loop_array:
  "(\<forall>j < length stamps. int j \<le> stamps ! j) \<Longrightarrow>
   points_loop stamps (Some vs) 0 [] = Inr (array_points stamps vs)"
  using points_loop_Some[of 0 stamps vs "[]"] points_from_array[of stamps vs] by simp

lemma fst_array_points: "map fst (array_points stamps vs) = stamps"
  by (simp add: array_points_def o_def map_nth)

lemma array_points_Nil: "array_points stamps vs = [] \<longleftrightarrow> stamps = []"
  by (simp add: array_points_def)

text \<open>
  C2. The claim: \<open>updateValue\<close> builds the point series by pairing, for each sample
  index \<open>i\<close> of the raw array, the parent's time value at \<open>i\<close> with the channel's value
  at \<open>i\<close>, one point per raw sample. The loop condition compares the index with the
  time sample instead of the length of the array, so the loop stops at the first sample
  that is smaller than its index. With the time samples \<open>[0, 1, 1, 5]\<close> the run
  completes with two points for four samples; with \<open>[-1000, 0, 1000]\<close> the series has
  no point at all.
\<close>

theorem updateValue_drops_samples:
  "v_series (fst (updateValue rawTemplate [[Num 10, Num 20, Num 30, Num 40]]
                    (parent_of [0, 1, 1, 5]) sensor_channel))
     = Some \<lparr>column_name = Some ''$sensor1'', events = [(0, Num 10), (1, Num 20)]\<rparr> \<and>
   snd (updateValue rawTemplate [[Num 10, Num 20, Num 30, Num 40]]
                    (parent_of [0, 1, 1, 5]) sensor_channel) = None \<and>
   v_series (fst (updateValue rawTemplate [[Num 10, Num 20, Num 30]]
                    (parent_of [-1000, 0, 1000]) sensor_channel))
     = Some \<lparr>column_name = Some ''$sensor1'', events = []\<rparr>"
  by code_simp

subsection \<open>Claims about the derived statistics and time bounds\<close>

text \<open>
  What a completed run computed, read off the parent's time samples and the channel's
  values.
\<close>

lemma completed_run_of:
  assumes completes: "snd (updateValue rt store parent self) = None"
    and p: "parent_value parent = stamps # rest"
    and v: "rt (value self) store = vs # rest'"
  shows "\<exists>c a mx mn r.
           value self = Some c \<and>
           points_loop stamps (Some vs) 0 [] = Inr (points_from 0 stamps vs) \<and>
           points_from 0 stamps vs \<noteq> [] \<and> isChronological (points_from 0 stamps vs) \<and>
           avg \<lparr>column_name = Some c, events = points_from 0 stamps vs\<rparr> (Some c) = Inr a \<and>
           max_series \<lparr>column_name = Some c, events = points_from 0 stamps vs\<rparr> (Some c) = Inr mx \<and>
           min_series \<lparr>column_name = Some c, events = points_from 0 stamps vs\<rparr> (Some c) = Inr mn \<and>
           range_series \<lparr>column_name = Some c, events = points_from 0 stamps vs\<rparr> = Some r \<and>
           fst (updateValue rt store parent self)
             = updated self (vs # rest')
                 \<lparr>column_name = Some c, events = points_from 0 stamps vs\<rparr> a mx mn r"
proof -
  from completed_run[OF completes] obtain stamps0 rest0 vs0 rest0' c a mx mn r where
    h: "parent_value parent = stamps0 # rest0" "rt (value self) store = vs0 # rest0'"
       "value self = Some c"
       "points_from 0 stamps0 vs0 \<noteq> []" "isChronological (points_from 0 stamps0 vs0)"
       "avg \<lparr>column_name = Some c, events = points_from 0 stamps0 vs0\<rparr> (Some c) = Inr a"
       "max_series \<lparr>column_name = Some c, events = points_from 0 stamps0 vs0\<rparr> (Some c) = Inr mx"
       "min_series \<lparr>column_name = Some c, events = points_from 0 stamps0 vs0\<rparr> (Some c) = Inr mn"
       "range_series \<lparr>column_name = Some c, events = points_from 0 stamps0 vs0\<rparr> = Some r"
       "fst (updateValue rt store parent self)
             = updated self (vs0 # rest0')
                 \<lparr>column_name = Some c, events = points_from 0 stamps0 vs0\<rparr> a mx mn r"
    by blast
  have e: "stamps0 = stamps" "vs0 = vs" "rest0' = rest'" using h(1,2) p v by simp_all
  have l: "points_loop stamps (Some vs) 0 [] = Inr (points_from 0 stamps vs)"
    using points_loop_Some[of 0 stamps vs "[]"] by simp
  show ?thesis
    using h(3-10) l unfolding e by blast
qed

text \<open>
  When every time sample is at least its index (as epoch milliseconds of recent dates
  are), a run that completes stores one point per sample, pairing the time sample with
  the channel's value at the same index.
\<close>

lemma updateValue_one_point_per_sample:
  assumes completes: "snd (updateValue rt store parent self) = None"
    and p: "parent_value parent = stamps # rest"
    and v: "rt (value self) store = vs # rest'"
    and ge: "\<forall>j < length stamps. int j \<le> stamps ! j"
  shows "v_series (fst (updateValue rt store parent self))
           = Some \<lparr>column_name = value self, events = array_points stamps vs\<rparr>"
proof -
  from completed_run_of[OF completes p v] obtain c a mx mn r where
    "value self = Some c"
    "fst (updateValue rt store parent self)
       = updated self (vs # rest')
           \<lparr>column_name = Some c, events = points_from 0 stamps vs\<rparr> a mx mn r"
    by blast
  then show ?thesis using points_from_array[OF ge, of vs] by (simp add: updated_def)
qed

text \<open>
  C1. The claim: after \<open>updateValue\<close> the stored \<open>_min\<close>, \<open>_max\<close> and \<open>_avg\<close> equal the
  minimum, maximum and average computed directly over the same points of the raw array.
  The code stores \<open>parseInt(\<dots>, 10)\<close> of each statistic, and it reads the values of the
  points through the value template as the name of the column. So: after a run that
  completes, on a raw array of which the loop pairs every sample, with a value template
  that is a name without a dot, and with values that are finite numbers or missing and
  at least one number among them, each stored statistic is \<open>parseInt(\<dots>, 10)\<close> of the
  statistic computed directly over the points of the array: the least and the greatest
  of the numbers, and their sum, added in order, divided by their count. The stored
  value equals the direct statistic itself when that is an integer below \<open>10^21\<close> in
  magnitude.
\<close>

theorem updateValue_statistics:
  assumes completes: "snd (updateValue rt store parent self) = None"
    and p: "parent_value parent = stamps # rest"
    and v: "rt (value self) store = vs # rest'"
    and pairs: "points_loop stamps (Some vs) 0 [] = Inr (array_points stamps vs)"
    and name: "value self = Some c" "CHR ''.'' \<notin> set c"
    and fin: "\<forall>x \<in> set (map snd (array_points stamps vs)). finite_or_missing x"
    and numeric: "numbers_of (map snd (array_points stamps vs)) = xs" "xs \<noteq> []"
  shows "v_series (fst (updateValue rt store parent self))
           = Some \<lparr>column_name = Some c, events = array_points stamps vs\<rparr> \<and>
         v_min (fst (updateValue rt store parent self))
           = Some (parseInt10 (Num (direct_min xs))) \<and>
         v_max (fst (updateValue rt store parent self))
           = Some (parseInt10 (Num (direct_max xs))) \<and>
         v_avg (fst (updateValue rt store parent self))
           = Some (parseInt10 (direct_avg xs)) \<and>
         (direct_min xs \<in> \<int> \<and> \<bar>direct_min xs\<bar> < 10 ^ 21 \<longrightarrow>
            v_min (fst (updateValue rt store parent self)) = Some (Num (direct_min xs))) \<and>
         (direct_max xs \<in> \<int> \<and> \<bar>direct_max xs\<bar> < 10 ^ 21 \<longrightarrow>
            v_max (fst (updateValue rt store parent self)) = Some (Num (direct_max xs))) \<and>
         (\<forall>a. direct_avg xs = Num a \<and> a \<in> \<int> \<and> \<bar>a\<bar> < 10 ^ 21 \<longrightarrow>
            v_avg (fst (updateValue rt store parent self)) = Some (Num a))"
proof -
  let ?pts = "array_points stamps vs"
  let ?s = "\<lparr>column_name = Some c, events = ?pts\<rparr>"
  from completed_run_of[OF completes p v] obtain c0 a mx mn r where
    h: "value self = Some c0"
       "points_loop stamps (Some vs) 0 [] = Inr (points_from 0 stamps vs)"
       "points_from 0 stamps vs \<noteq> []"
       "avg \<lparr>column_name = Some c0, events = points_from 0 stamps vs\<rparr> (Some c0) = Inr a"
       "max_series \<lparr>column_name = Some c0, events = points_from 0 stamps vs\<rparr> (Some c0) = Inr mx"
       "min_series \<lparr>column_name = Some c0, events = points_from 0 stamps vs\<rparr> (Some c0) = Inr mn"
       "fst (updateValue rt store parent self)
             = updated self (vs # rest')
                 \<lparr>column_name = Some c0, events = points_from 0 stamps vs\<rparr> a mx mn r"
    by blast
  have c0: "c0 = c" using h(1) name(1) by simp
  have pts: "points_from 0 stamps vs = ?pts" using h(2) pairs by simp
  have ne: "?pts \<noteq> []" using h(3) pts by simp
  have col: "map (\<lambda>ev. get_field ?s ev (Some c)) ?pts = map snd ?pts"
    using name(2) by (simp add: get_field_column)
  have a: "a = direct_avg xs"
    using h(4) ne col avg_reducer_numbers[OF fin] numeric(1)
    unfolding c0 pts by (simp add: avg_def aggregate_Some)
  have mx: "mx = Num (direct_max xs)"
    using h(5) ne col max_reducer_numbers[OF fin] numeric
    unfolding c0 pts by (simp add: max_series_def aggregate_Some)
  have mn: "mn = Num (direct_min xs)"
    using h(6) ne col min_reducer_numbers[OF fin] numeric
    unfolding c0 pts by (simp add: min_series_def aggregate_Some)
  have u: "fst (updateValue rt store parent self)
             = updated self (vs # rest') ?s (direct_avg xs) (Num (direct_max xs))
                 (Num (direct_min xs)) r"
    using h(7) unfolding c0 pts a mx mn .
  have s1: "v_series (fst (updateValue rt store parent self)) = Some ?s"
    unfolding u by (simp add: updated_def)
  have s2: "v_min (fst (updateValue rt store parent self)) = Some (parseInt10 (Num (direct_min xs)))"
    unfolding u by (simp add: updated_def)
  have s3: "v_max (fst (updateValue rt store parent self)) = Some (parseInt10 (Num (direct_max xs)))"
    unfolding u by (simp add: updated_def)
  have s4: "v_avg (fst (updateValue rt store parent self)) = Some (parseInt10 (direct_avg xs))"
    unfolding u by (simp add: updated_def)
  show ?thesis
    unfolding s1 s2 s3 s4 by (simp add: parseInt10_integer)
qed

theorem updateValue_statistics_witness:
  "snd (updateValue rawTemplate [[Num 4, Num 7]] (parent_of [0, 1]) sensor_channel) = None \<and>
   array_points [0, 1] [Num 4, Num 7] = [(0, Num 4), (1, Num 7)] \<and>
   points_loop [0, 1] (Some [Num 4, Num 7]) 0 [] = Inr (array_points [0, 1] [Num 4, Num 7]) \<and>
   numbers_of (map snd (array_points [0, 1] [Num 4, Num 7])) = [4, 7] \<and>
   direct_min [4, 7] = 4 \<and> direct_max [4, 7] = 7 \<and> direct_avg [4, 7] = Num (11 / 2) \<and>
   v_series (fst (updateValue rawTemplate [[Num 4, Num 7]] (parent_of [0, 1]) sensor_channel))
     = Some \<lparr>column_name = Some ''$sensor1'', events = [(0, Num 4), (1, Num 7)]\<rparr> \<and>
   v_min (fst (updateValue rawTemplate [[Num 4, Num 7]] (parent_of [0, 1]) sensor_channel))
     = Some (Num 4) \<and>
   v_max (fst (updateValue rawTemplate [[Num 4, Num 7]] (parent_of [0, 1]) sensor_channel))
     = Some (Num 7) \<and>
   v_avg (fst (updateValue rawTemplate [[Num 4, Num 7]] (parent_of [0, 1]) sensor_channel))
     = Some (parseInt10 (Num (11 / 2))) \<and>
   parseInt10 (Num (11 / 2)) = Num 5"
proof -
  let ?U = "updateValue rawTemplate [[Num 4, Num 7]] (parent_of [0, 1]) sensor_channel"
  have h1: "snd ?U = None" by code_simp
  have h2: "parent_value (parent_of [0, 1]) = [0, 1] # []" by (simp add: parent_of_def)
  have h3: "rawTemplate (value sensor_channel) [[Num 4, Num 7]] = [Num 4, Num 7] # []"
    by (simp add: rawTemplate_def)
  have ap: "array_points [0, 1] [Num 4, Num 7] = [(0, Num 4), (1, Num 7)]" by code_simp
  have h4: "points_loop [0, 1] (Some [Num 4, Num 7]) 0 [] = Inr (array_points [0, 1] [Num 4, Num 7])"
    by code_simp
  have h5: "value sensor_channel = Some ''$sensor1''" by (simp add: sensor_channel_def)
  have h6: "CHR ''.'' \<notin> set ''$sensor1''" by simp
  have h7: "\<forall>x \<in> set (map snd (array_points [0, 1] [Num 4, Num 7])). finite_or_missing x"
    unfolding ap by simp
  have h8: "numbers_of (map snd (array_points [0, 1] [Num 4, Num 7])) = [4, 7]"
    unfolding ap by simp
  have h9: "[4, 7] \<noteq> ([] :: rat list)" by simp
  have d: "direct_min [4, 7] = 4" "direct_max [4, 7] = 7"
    by (simp_all add: direct_min_def direct_max_def)
  have da: "direct_avg [4, 7] = Num (11 / 2)" by code_simp
  have pi: "parseInt10 (Num (11 / 2)) = Num 5" by code_simp
  have i: "(4::rat) \<in> \<int> \<and> \<bar>4::rat\<bar> < 10 ^ 21" "(7::rat) \<in> \<int> \<and> \<bar>7::rat\<bar> < 10 ^ 21"
    by simp_all
  note T = updateValue_statistics[OF h1 h2 h3 h4 h5 h6 h7 h8 h9, unfolded d da ap]
  from T i have r: "v_series (fst ?U)
                 = Some \<lparr>column_name = Some ''$sensor1'', events = [(0, Num 4), (1, Num 7)]\<rparr>"
    "v_min (fst ?U) = Some (Num 4)" "v_max (fst ?U) = Some (Num 7)"
    "v_avg (fst ?U) = Some (parseInt10 (Num (11 / 2)))"
    by blast+
  show ?thesis
    using h1 ap h4 h8 d da r pi unfolding ap by simp
qed

text \<open>
  With the values \<open>1.5\<close> and \<open>2\<close> the stored minimum and average are \<open>1\<close>, while the
  minimum and average of the points are \<open>1.5\<close> and \<open>1.75\<close>. With the value template
  \<open>$a.b\<close> the points hold \<open>5\<close>, \<open>6\<close>, \<open>7\<close> and the three stored statistics are \<open>NaN\<close>: the
  series reads a dotted name as a path into the value and finds nothing. With an
  infinite value among the points the stored maximum is \<open>NaN\<close>. Without a value template
  the first aggregation raises and no statistic is stored. With the time samples
  \<open>[0, 1, 1, 5]\<close> the loop drops the last two samples and the stored maximum is \<open>20\<close>,
  while the greatest value of the points of the array is \<open>40\<close>.
\<close>

theorem statistics_truncated_counterexample:
  "snd (updateValue rawTemplate [[Num (3 / 2), Num 2]] (parent_of [0, 1]) sensor_channel) = None \<and>
   v_series (fst (updateValue rawTemplate [[Num (3 / 2), Num 2]] (parent_of [0, 1]) sensor_channel))
     = Some \<lparr>column_name = Some ''$sensor1'', events = array_points [0, 1] [Num (3 / 2), Num 2]\<rparr> \<and>
   numbers_of (map snd (array_points [0, 1] [Num (3 / 2), Num 2])) = [3 / 2, 2] \<and>
   direct_min [3 / 2, 2] = 3 / 2 \<and>
   direct_avg [3 / 2, 2] = Num (7 / 4) \<and>
   v_min (fst (updateValue rawTemplate [[Num (3 / 2), Num 2]] (parent_of [0, 1]) sensor_channel))
     = Some (Num 1) \<and>
   v_avg (fst (updateValue rawTemplate [[Num (3 / 2), Num 2]] (parent_of [0, 1]) sensor_channel))
     = Some (Num 1) \<and>
   snd (updateValue rawTemplate [[Num 5, Num 6, Num 7]] (parent_of [0, 1, 2])
          (sensor_channel\<lparr>value := Some ''$a.b''\<rparr>)) = None \<and>
   v_series (fst (updateValue rawTemplate [[Num 5, Num 6, Num 7]] (parent_of [0, 1, 2])
          (sensor_channel\<lparr>value := Some ''$a.b''\<rparr>)))
     = Some \<lparr>column_name = Some ''$a.b'', events = [(0, Num 5), (1, Num 6), (2, Num 7)]\<rparr> \<and>
   v_min (fst (updateValue rawTemplate [[Num 5, Num 6, Num 7]] (parent_of [0, 1, 2])
          (sensor_channel\<lparr>value := Some ''$a.b''\<rparr>))) = Some NaN \<and>
   v_max (fst (updateValue rawTemplate [[Num 5, Num 6, Num 7]] (parent_of [0, 1, 2])
          (sensor_channel\<lparr>value := Some ''$a.b''\<rparr>))) = Some NaN \<and>
   v_avg (fst (updateValue rawTemplate [[Num 5, Num 6, Num 7]] (parent_of [0, 1, 2])
          (sensor_channel\<lparr>value := Some ''$a.b''\<rparr>))) = Some NaN \<and>
   snd (updateValue rawTemplate [[Num 5, Infinity]] (parent_of [0, 1]) sensor_channel) = None \<and>
   v_max (fst (updateValue rawTemplate [[Num 5, Infinity]] (parent_of [0, 1]) sensor_channel))
     = Some NaN \<and>
   snd (updateValue rawTemplate [[Num 5, Num 6, Num 7]] (parent_of [0, 1, 2])
          (sensor_channel\<lparr>value := None\<rparr>)) = Some LibError \<and>
   v_avg (fst (updateValue rawTemplate [[Num 5, Num 6, Num 7]] (parent_of [0, 1, 2])
          (sensor_channel\<lparr>value := None\<rparr>))) = None \<and>
   snd (updateValue rawTemplate [[Num 10, Num 20, Num 30, Num 40]] (parent_of [0, 1, 1, 5])
          sensor_channel) = None \<and>
   direct_max (numbers_of (map snd (array_points [0, 1, 1, 5] [Num 10, Num 20, Num 30, Num 40])))
     = 40 \<and>
   v_max (fst (updateValue rawTemplate [[Num 10, Num 20, Num 30, Num 40]] (parent_of [0, 1, 1, 5])
          sensor_channel)) = Some (Num 20)"
  by code_simp

text \<open>
  A run that raises leaves the time bounds as they were.
\<close>

lemma updateValue_raised_bounds:
  assumes "snd (updateValue rt store parent self) \<noteq> None"
  shows "v_minTime (fst (updateValue rt store parent self)) = v_minTime self \<and>
         v_maxTime (fst (updateValue rt store parent self)) = v_maxTime self"
proof (cases "index (parent_value parent) 0")
  case None
  then show ?thesis by (simp add: updateValue_def Let_def)
next
  case (Some stamps)
  note p = this
  show ?thesis
  proof (cases "points_loop stamps (index (rt (value self) store) 0) 0 []")
    case (Inl e)
    then show ?thesis using p by (simp add: updateValue_def Let_def)
  next
    case (Inr pts)
    note l = this
    show ?thesis
    proof (cases "TimeSeries (value self) pts")
      case (Inl e)
      then show ?thesis using p l by (simp add: updateValue_def Let_def)
    next
      case (Inr s)
      note s = this
      show ?thesis
      proof (cases "avg s (value self)")
        case (Inl e)
        then show ?thesis using p l s by (simp add: updateValue_def Let_def)
      next
        case (Inr a)
        note a = this
        show ?thesis
        proof (cases "max_series s (value self)")
          case (Inl e)
          then show ?thesis using p l s a by (simp add: updateValue_def Let_def)
        next
          case (Inr mx)
          note mx = this
          show ?thesis
          proof (cases "min_series s (value self)")
            case (Inl e)
            then show ?thesis using p l s a mx by (simp add: updateValue_def Let_def)
          next
            case (Inr mn)
            note mn = this
            show ?thesis
            proof (cases "range_series s")
              case None
              then show ?thesis using p l s a mx mn by (simp add: updateValue_def Let_def)
            next
              case (Some r)
              then have "snd (updateValue rt store parent self) = None"
                using p l s a mx mn by (simp add: updateValue_def Let_def)
              then show ?thesis using assms by simp
            qed
          qed
        qed
      qed
    qed
  qed
qed

text \<open>
  C5. The claim: after every run of \<open>updateValue\<close> the stored \<open>_minTime\<close> and \<open>_maxTime\<close>
  are the begin and the end of the time range of the series just built. This holds
  after every run that completes: the series stored is the one built from the parent's
  time samples and the channel's values, and the stored bounds are the begin and the end
  of its range, the earliest and the latest event time, which are the times of its first
  and last event (the first and last time sample when the loop pairs every sample). A
  run that raises leaves the bounds as they were, although it may already have stored
  a new series.
\<close>

theorem updateValue_time_bounds:
  assumes p: "parent_value parent = stamps # rest"
    and v: "rt (value self) store = vs # rest'"
  shows "(snd (updateValue rt store parent self) = None \<longrightarrow>
           (\<exists>pts mn mx.
              points_loop stamps (Some vs) 0 [] = Inr pts \<and> pts \<noteq> [] \<and>
              v_series (fst (updateValue rt store parent self))
                = Some \<lparr>column_name = value self, events = pts\<rparr> \<and>
              range_series \<lparr>column_name = value self, events = pts\<rparr> = Some (mn, mx) \<and>
              v_minTime (fst (updateValue rt store parent self)) = Some mn \<and>
              v_maxTime (fst (updateValue rt store parent self)) = Some mx \<and>
              mn = Min (fst ` set pts) \<and> mx = Max (fst ` set pts) \<and>
              mn = fst (hd pts) \<and> mx = fst (last pts) \<and>
              (pts = array_points stamps vs \<longrightarrow> mn = hd stamps \<and> mx = last stamps))) \<and>
         (snd (updateValue rt store parent self) \<noteq> None \<longrightarrow>
            v_minTime (fst (updateValue rt store parent self)) = v_minTime self \<and>
            v_maxTime (fst (updateValue rt store parent self)) = v_maxTime self)"
proof (intro conjI impI)
  assume completes: "snd (updateValue rt store parent self) = None"
  let ?pts = "points_from 0 stamps vs"
  from completed_run_of[OF completes p v] obtain c a mx mn r where
    h: "value self = Some c"
       "points_loop stamps (Some vs) 0 [] = Inr ?pts"
       "?pts \<noteq> []" "isChronological ?pts"
       "range_series \<lparr>column_name = Some c, events = ?pts\<rparr> = Some r"
       "fst (updateValue rt store parent self)
             = updated self (vs # rest') \<lparr>column_name = Some c, events = ?pts\<rparr> a mx mn r"
    by blast
  have r: "r = (Min (fst ` set ?pts), Max (fst ` set ?pts))"
    using h(5) range_series_Some[of "\<lparr>column_name = Some c, events = ?pts\<rparr>"] h(3) by simp
  have b: "Min (fst ` set ?pts) = fst (hd ?pts)" "Max (fst ` set ?pts) = fst (last ?pts)"
    using chronological_bounds[OF h(4) h(3)] by simp_all
  have s1: "v_series (fst (updateValue rt store parent self))
              = Some \<lparr>column_name = value self, events = ?pts\<rparr>"
    unfolding h(6) h(1) by (simp add: updated_def)
  have s2: "range_series \<lparr>column_name = value self, events = ?pts\<rparr> = Some (fst r, snd r)"
    using h(5) unfolding h(1) by simp
  have s3: "v_minTime (fst (updateValue rt store parent self)) = Some (fst r)"
    unfolding h(6) by (simp add: updated_def)
  have s4: "v_maxTime (fst (updateValue rt store parent self)) = Some (snd r)"
    unfolding h(6) by (simp add: updated_def)
  have s5: "fst r = Min (fst ` set ?pts)" "snd r = Max (fst ` set ?pts)"
           "fst r = fst (hd ?pts)" "snd r = fst (last ?pts)"
    using r b by simp_all
  have s6: "?pts = array_points stamps vs \<longrightarrow> fst r = hd stamps \<and> snd r = last stamps"
  proof
    assume e: "?pts = array_points stamps vs"
    then have ne: "array_points stamps vs \<noteq> []" using h(3) by simp
    have "fst (hd (array_points stamps vs)) = hd (map fst (array_points stamps vs))"
         "fst (last (array_points stamps vs)) = last (map fst (array_points stamps vs))"
      using ne by (simp_all add: hd_map last_map)
    then show "fst r = hd stamps \<and> snd r = last stamps"
      using s5(3,4) unfolding e fst_array_points by simp
  qed
  show "\<exists>pts mn mx.
              points_loop stamps (Some vs) 0 [] = Inr pts \<and> pts \<noteq> [] \<and>
              v_series (fst (updateValue rt store parent self))
                = Some \<lparr>column_name = value self, events = pts\<rparr> \<and>
              range_series \<lparr>column_name = value self, events = pts\<rparr> = Some (mn, mx) \<and>
              v_minTime (fst (updateValue rt store parent self)) = Some mn \<and>
              v_maxTime (fst (updateValue rt store parent self)) = Some mx \<and>
              mn = Min (fst ` set pts) \<and> mx = Max (fst ` set pts) \<and>
              mn = fst (hd pts) \<and> mx = fst (last pts) \<and>
              (pts = array_points stamps vs \<longrightarrow> mn = hd stamps \<and> mx = last stamps)"
    by (intro exI[of _ ?pts] exI[of _ "fst r"] exI[of _ "snd r"] conjI)
       (rule h(2) h(3) s1 s2 s3 s4 s5 s6)+
next
  assume "snd (updateValue rt store parent self) \<noteq> None"
  from updateValue_raised_bounds[OF this]
  show "v_minTime (fst (updateValue rt store parent self)) = v_minTime self"
       "v_maxTime (fst (updateValue rt store parent self)) = v_maxTime self"
    by simp_all
qed

theorem updateValue_time_bounds_witness:
  "snd (updateValue rawTemplate [[Num 4, Num 6, Num 5]] (parent_of [3, 7, 9]) sensor_channel) = None \<and>
   points_loop [3, 7, 9] (Some [Num 4, Num 6, Num 5]) 0 [] = Inr [(3, Num 4), (7, Num 6), (9, Num 5)] \<and>
   array_points [3, 7, 9] [Num 4, Num 6, Num 5] = [(3, Num 4), (7, Num 6), (9, Num 5)] \<and>
   v_series (fst (updateValue rawTemplate [[Num 4, Num 6, Num 5]] (parent_of [3, 7, 9]) sensor_channel))
     = Some \<lparr>column_name = Some ''$sensor1'', events = [(3, Num 4), (7, Num 6), (9, Num 5)]\<rparr> \<and>
   range_series \<lparr>column_name = Some ''$sensor1'', events = [(3, Num 4), (7, Num 6), (9, Num 5)]\<rparr>
     = Some (3, 9) \<and>
   v_minTime (fst (updateValue rawTemplate [[Num 4, Num 6, Num 5]] (parent_of [3, 7, 9]) sensor_channel))
     = Some 3 \<and>
   v_maxTime (fst (updateValue rawTemplate [[Num 4, Num 6, Num 5]] (parent_of [3, 7, 9]) sensor_channel))
     = Some 9 \<and>
   snd (updateValue rawTemplate [[Num 1, Num 2]] (parent_of [5, 3])
          (sensor_channel\<lparr>v_minTime := Some 3, v_maxTime := Some 9\<rparr>)) = Some LibError \<and>
   v_minTime (fst (updateValue rawTemplate [[Num 1, Num 2]] (parent_of [5, 3])
          (sensor_channel\<lparr>v_minTime := Some 3, v_maxTime := Some 9\<rparr>))) = Some 3 \<and>
   v_maxTime (fst (updateValue rawTemplate [[Num 1, Num 2]] (parent_of [5, 3])
          (sensor_channel\<lparr>v_minTime := Some 3, v_maxTime := Some 9\<rparr>))) = Some 9"
proof -
  let ?U = "updateValue rawTemplate [[Num 4, Num 6, Num 5]] (parent_of [3, 7, 9]) sensor_channel"
  let ?old = "sensor_channel\<lparr>v_minTime := Some 3, v_maxTime := Some 9\<rparr>"
  let ?V = "updateValue rawTemplate [[Num 1, Num 2]] (parent_of [5, 3]) ?old"
  have h1: "snd ?U = None" by code_simp
  have h2: "parent_value (parent_of [3, 7, 9]) = [3, 7, 9] # []" by (simp add: parent_of_def)
  have h3: "rawTemplate (value sensor_channel) [[Num 4, Num 6, Num 5]] = [Num 4, Num 6, Num 5] # []"
    by (simp add: rawTemplate_def)
  have l: "points_loop [3, 7, 9] (Some [Num 4, Num 6, Num 5]) 0 []
             = Inr [(3, Num 4), (7, Num 6), (9, Num 5)]" by code_simp
  have ap: "array_points [3, 7, 9] [Num 4, Num 6, Num 5] = [(3, Num 4), (7, Num 6), (9, Num 5)]"
    by code_simp
  have n: "value sensor_channel = Some ''$sensor1''" by (simp add: sensor_channel_def)
  from updateValue_time_bounds[where rt = rawTemplate and self = sensor_channel
         and store = "[[Num 4, Num 6, Num 5]]", OF h2 h3] h1 obtain pts mn mx where
    r: "points_loop [3, 7, 9] (Some [Num 4, Num 6, Num 5]) 0 [] = Inr pts"
       "v_series (fst ?U) = Some \<lparr>column_name = value sensor_channel, events = pts\<rparr>"
       "range_series \<lparr>column_name = value sensor_channel, events = pts\<rparr> = Some (mn, mx)"
       "v_minTime (fst ?U) = Some mn" "v_maxTime (fst ?U) = Some mx"
       "pts = array_points [3, 7, 9] [Num 4, Num 6, Num 5] \<longrightarrow>
          mn = hd [3, 7, 9] \<and> mx = last [3, 7, 9]"
    by blast
  have pts: "pts = [(3, Num 4), (7, Num 6), (9, Num 5)]" using r(1) l by simp
  have b: "mn = 3" "mx = 9" using r(6) pts ap by simp_all
  have g1: "snd ?V = Some LibError" by code_simp
  have g2: "parent_value (parent_of [5, 3]) = [5, 3] # []" by (simp add: parent_of_def)
  have g3: "rawTemplate (value ?old) [[Num 1, Num 2]] = [Num 1, Num 2] # []"
    by (simp add: rawTemplate_def)
  from updateValue_time_bounds[where rt = rawTemplate and self = ?old
         and store = "[[Num 1, Num 2]]", OF g2 g3] g1
  have st: "v_minTime (fst ?V) = v_minTime ?old" "v_maxTime (fst ?V) = v_maxTime ?old"
    by simp_all
  show ?thesis
    using h1 l ap r(2,3,4,5) g1 st unfolding pts b n by simp
qed

text \<open>
  After a run on the time samples \<open>[3, 7, 9]\<close>, a run on an empty array of time samples
  stores the new, empty series and then raises where it reads the begin of its range:
  the series has no range, and the stored bounds are still \<open>3\<close> and \<open>9\<close>, those of the
  series before.
\<close>

theorem time_bounds_stale_counterexample:
  "snd (updateValue rawTemplate [[Num 4, Num 6, Num 5]] (parent_of [3, 7, 9]) sensor_channel) = None \<and>
   snd (updateValue rawTemplate [[]] (parent_of [])
          (fst (updateValue rawTemplate [[Num 4, Num 6, Num 5]] (parent_of [3, 7, 9]) sensor_channel)))
     = Some TypeError \<and>
   v_series (fst (updateValue rawTemplate [[]] (parent_of [])
          (fst (updateValue rawTemplate [[Num 4, Num 6, Num 5]] (parent_of [3, 7, 9]) sensor_channel))))
     = Some \<lparr>column_name = Some ''$sensor1'', events = []\<rparr> \<and>
   range_series \<lparr>column_name = Some ''$sensor1'', events = []\<rparr> = None \<and>
   v_minTime (fst (updateValue rawTemplate [[]] (parent_of [])
          (fst (updateValue rawTemplate [[Num 4, Num 6, Num 5]] (parent_of [3, 7, 9]) sensor_channel))))
     = Some 3 \<and>
   v_maxTime (fst (updateValue rawTemplate [[]] (parent_of [])
          (fst (updateValue rawTemplate [[Num 4, Num 6, Num 5]] (parent_of [3, 7, 9]) sensor_channel))))
     = Some 9"
  by code_simp

text \<open>
  C8. The claim: after every run of \<open>updateValue\<close> the stored \<open>_avg\<close>, \<open>_max\<close> and \<open>_min\<close>
  are integer-valued, each the base-10 \<open>parseInt\<close> truncation of the series statistic.
  After every run that completes, each stored statistic is \<open>parseInt(x, 10)\<close> of the
  statistic \<open>x\<close> of the series built, over the column the value template names. When
  \<open>x\<close> is a finite number the stored value is integer-valued; it is the truncation of
  \<open>x\<close> toward zero, which discards the fractional part, whenever \<open>x\<close> prints in plain
  decimal notation. When \<open>x\<close> is not a finite number (the column holds no number, or the
  average is infinite) the stored value is \<open>NaN\<close>.
\<close>

theorem updateValue_statistics_parseInt:
  assumes completes: "snd (updateValue rt store parent self) = None"
    and p: "parent_value parent = stamps # rest"
    and v: "rt (value self) store = vs # rest'"
  shows "\<exists>pts a mx mn.
           points_loop stamps (Some vs) 0 [] = Inr pts \<and>
           v_series (fst (updateValue rt store parent self))
             = Some \<lparr>column_name = value self, events = pts\<rparr> \<and>
           avg \<lparr>column_name = value self, events = pts\<rparr> (value self) = Inr a \<and>
           max_series \<lparr>column_name = value self, events = pts\<rparr> (value self) = Inr mx \<and>
           min_series \<lparr>column_name = value self, events = pts\<rparr> (value self) = Inr mn \<and>
           v_avg (fst (updateValue rt store parent self)) = Some (parseInt10 a) \<and>
           v_max (fst (updateValue rt store parent self)) = Some (parseInt10 mx) \<and>
           v_min (fst (updateValue rt store parent self)) = Some (parseInt10 mn) \<and>
           (isFinite a \<longrightarrow> integer_valued (v_avg (fst (updateValue rt store parent self)))) \<and>
           (isFinite mx \<longrightarrow> integer_valued (v_max (fst (updateValue rt store parent self)))) \<and>
           (isFinite mn \<longrightarrow> integer_valued (v_min (fst (updateValue rt store parent self)))) \<and>
           (\<not> isFinite a \<longrightarrow> v_avg (fst (updateValue rt store parent self)) = Some NaN) \<and>
           (\<not> isFinite mx \<longrightarrow> v_max (fst (updateValue rt store parent self)) = Some NaN) \<and>
           (\<not> isFinite mn \<longrightarrow> v_min (fst (updateValue rt store parent self)) = Some NaN) \<and>
           (\<forall>x. (a = Num x \<or> mx = Num x \<or> mn = Num x) \<and> decimal_notation x \<longrightarrow>
                parseInt10 (Num x) = Num (of_int (trunc x)) \<and>
                \<bar>of_int (trunc x)\<bar> \<le> \<bar>x\<bar> \<and> \<bar>x - of_int (trunc x)\<bar> < 1)"
proof -
  let ?pts = "points_from 0 stamps vs"
  from completed_run_of[OF completes p v] obtain c a mx mn r where
    h: "value self = Some c"
       "points_loop stamps (Some vs) 0 [] = Inr ?pts"
       "avg \<lparr>column_name = Some c, events = ?pts\<rparr> (Some c) = Inr a"
       "max_series \<lparr>column_name = Some c, events = ?pts\<rparr> (Some c) = Inr mx"
       "min_series \<lparr>column_name = Some c, events = ?pts\<rparr> (Some c) = Inr mn"
       "fst (updateValue rt store parent self)
             = updated self (vs # rest') \<lparr>column_name = Some c, events = ?pts\<rparr> a mx mn r"
    by blast
  have s1: "v_series (fst (updateValue rt store parent self))
              = Some \<lparr>column_name = value self, events = ?pts\<rparr>"
    unfolding h(6) h(1) by (simp add: updated_def)
  have s2: "avg \<lparr>column_name = value self, events = ?pts\<rparr> (value self) = Inr a"
           "max_series \<lparr>column_name = value self, events = ?pts\<rparr> (value self) = Inr mx"
           "min_series \<lparr>column_name = value self, events = ?pts\<rparr> (value self) = Inr mn"
    using h(3,4,5) unfolding h(1) by simp_all
  have s3: "v_avg (fst (updateValue rt store parent self)) = Some (parseInt10 a)"
           "v_max (fst (updateValue rt store parent self)) = Some (parseInt10 mx)"
           "v_min (fst (updateValue rt store parent self)) = Some (parseInt10 mn)"
    unfolding h(6) by (simp_all add: updated_def)
  have iv: "\<And>y. isFinite y \<longrightarrow> integer_valued (Some (parseInt10 y))"
  proof
    fix y assume "isFinite y"
    then obtain x where "y = Num x" by (cases y) simp_all
    then show "integer_valued (Some (parseInt10 y))" by (simp add: parseInt10_integer_valued)
  qed
  have nf: "\<And>y. \<not> isFinite y \<longrightarrow> Some (parseInt10 y) = Some NaN"
    by (simp add: parseInt10_not_finite)
  have tr: "\<forall>x. (a = Num x \<or> mx = Num x \<or> mn = Num x) \<and> decimal_notation x \<longrightarrow>
                parseInt10 (Num x) = Num (of_int (trunc x)) \<and>
                \<bar>of_int (trunc x)\<bar> \<le> \<bar>x\<bar> \<and> \<bar>x - of_int (trunc x)\<bar> < 1"
    using trunc_discards_fraction by (simp add: parseInt10.simps)
  show ?thesis
    unfolding s3
    by (intro exI[of _ ?pts] exI[of _ a] exI[of _ mx] exI[of _ mn] conjI)
       (rule h(2) s1 s2 s3 iv nf tr refl)+
qed

theorem updateValue_statistics_parseInt_witness:
  "snd (updateValue rawTemplate [[Num (3 / 2), Num (- 5 / 2)]] (parent_of [0, 1]) sensor_channel) = None \<and>
   avg \<lparr>column_name = Some ''$sensor1'', events = [(0, Num (3 / 2)), (1, Num (- 5 / 2))]\<rparr>
     (Some ''$sensor1'') = Inr (Num (- 1 / 2)) \<and>
   max_series \<lparr>column_name = Some ''$sensor1'', events = [(0, Num (3 / 2)), (1, Num (- 5 / 2))]\<rparr>
     (Some ''$sensor1'') = Inr (Num (3 / 2)) \<and>
   min_series \<lparr>column_name = Some ''$sensor1'', events = [(0, Num (3 / 2)), (1, Num (- 5 / 2))]\<rparr>
     (Some ''$sensor1'') = Inr (Num (- 5 / 2)) \<and>
   v_avg (fst (updateValue rawTemplate [[Num (3 / 2), Num (- 5 / 2)]] (parent_of [0, 1]) sensor_channel))
     = Some (Num 0) \<and>
   v_max (fst (updateValue rawTemplate [[Num (3 / 2), Num (- 5 / 2)]] (parent_of [0, 1]) sensor_channel))
     = Some (Num 1) \<and>
   v_min (fst (updateValue rawTemplate [[Num (3 / 2), Num (- 5 / 2)]] (parent_of [0, 1]) sensor_channel))
     = Some (Num (- 2)) \<and>
   integer_valued (v_avg (fst (updateValue rawTemplate [[Num (3 / 2), Num (- 5 / 2)]] (parent_of [0, 1]) sensor_channel))) \<and>
   integer_valued (v_max (fst (updateValue rawTemplate [[Num (3 / 2), Num (- 5 / 2)]] (parent_of [0, 1]) sensor_channel))) \<and>
   integer_valued (v_min (fst (updateValue rawTemplate [[Num (3 / 2), Num (- 5 / 2)]] (parent_of [0, 1]) sensor_channel)))"
proof -
  let ?U = "updateValue rawTemplate [[Num (3 / 2), Num (- 5 / 2)]] (parent_of [0, 1]) sensor_channel"
  let ?pts = "[(0, Num (3 / 2)), (1, Num (- 5 / 2))]"
  let ?S = "\<lparr>column_name = Some ''$sensor1'', events = ?pts\<rparr>"
  have h1: "snd ?U = None" by code_simp
  have h2: "parent_value (parent_of [0, 1]) = [0, 1] # []" by (simp add: parent_of_def)
  have h3: "rawTemplate (value sensor_channel) [[Num (3 / 2), Num (- 5 / 2)]]
              = [Num (3 / 2), Num (- 5 / 2)] # []"
    by (simp add: rawTemplate_def)
  have l: "points_loop [0, 1] (Some [Num (3 / 2), Num (- 5 / 2)]) 0 [] = Inr ?pts" by code_simp
  have n: "value sensor_channel = Some ''$sensor1''" by (simp add: sensor_channel_def)
  have a: "avg ?S (Some ''$sensor1'') = Inr (Num (- 1 / 2))" by code_simp
  have mx: "max_series ?S (Some ''$sensor1'') = Inr (Num (3 / 2))" by code_simp
  have mn: "min_series ?S (Some ''$sensor1'') = Inr (Num (- 5 / 2))" by code_simp
  have d: "decimal_notation (- 1 / 2)" "decimal_notation (3 / 2)" "decimal_notation (- 5 / 2)"
    by code_simp+
  have t: "trunc (- 1 / 2) = 0" "trunc (3 / 2) = 1" "trunc (- 5 / 2) = - 2" by code_simp+
  from updateValue_statistics_parseInt[OF h1 h2 h3] obtain pts a' mx' mn' where
    r: "points_loop [0, 1] (Some [Num (3 / 2), Num (- 5 / 2)]) 0 [] = Inr pts"
       "avg \<lparr>column_name = value sensor_channel, events = pts\<rparr> (value sensor_channel) = Inr a'"
       "max_series \<lparr>column_name = value sensor_channel, events = pts\<rparr> (value sensor_channel) = Inr mx'"
       "min_series \<lparr>column_name = value sensor_channel, events = pts\<rparr> (value sensor_channel) = Inr mn'"
       "v_avg (fst ?U) = Some (parseInt10 a')"
       "v_max (fst ?U) = Some (parseInt10 mx')"
       "v_min (fst ?U) = Some (parseInt10 mn')"
       "isFinite a' \<longrightarrow> integer_valued (v_avg (fst ?U))"
       "isFinite mx' \<longrightarrow> integer_valued (v_max (fst ?U))"
       "isFinite mn' \<longrightarrow> integer_valued (v_min (fst ?U))"
       "\<forall>x. (a' = Num x \<or> mx' = Num x \<or> mn' = Num x) \<and> decimal_notation x \<longrightarrow>
                parseInt10 (Num x) = Num (of_int (trunc x)) \<and>
                \<bar>of_int (trunc x)\<bar> \<le> \<bar>x\<bar> \<and> \<bar>x - of_int (trunc x)\<bar> < 1"
    by blast
  have pts: "pts = ?pts" using r(1) l by simp
  have e: "a' = Num (- 1 / 2)" "mx' = Num (3 / 2)" "mn' = Num (- 5 / 2)"
    using r(2,3,4) a mx mn unfolding pts n by simp_all
  have pa: "parseInt10 (Num (- 1 / 2)) = Num 0"
    using r(11) e(1) d(1) t(1) by auto
  have pmx: "parseInt10 (Num (3 / 2)) = Num 1"
    using r(11) e(2) d(2) t(2) by auto
  have pmn: "parseInt10 (Num (- 5 / 2)) = Num (- 2)"
    using r(11) e(3) d(3) t(3) by auto
  have iv: "integer_valued (v_avg (fst ?U))" "integer_valued (v_max (fst ?U))"
           "integer_valued (v_min (fst ?U))"
    using r(8,9,10) e by simp_all
  show ?thesis
    using h1 a mx mn r(5,6,7) iv unfolding e pa pmx pmn by simp
qed

text \<open>
  With the single value \<open>null\<close> the run completes and the three stored statistics are
  \<open>NaN\<close>, which is not an integer. With the single value \<open>10^21\<close>, which prints as
  \<open>1e+21\<close>, the stored maximum is \<open>1\<close>: not the truncation of the maximum.
\<close>

theorem statistics_NaN_counterexample:
  "snd (updateValue rawTemplate [[Null]] (parent_of [0]) sensor_channel) = None \<and>
   v_avg (fst (updateValue rawTemplate [[Null]] (parent_of [0]) sensor_channel)) = Some NaN \<and>
   v_max (fst (updateValue rawTemplate [[Null]] (parent_of [0]) sensor_channel)) = Some NaN \<and>
   v_min (fst (updateValue rawTemplate [[Null]] (parent_of [0]) sensor_channel)) = Some NaN \<and>
   \<not> integer_valued (v_avg (fst (updateValue rawTemplate [[Null]] (parent_of [0]) sensor_channel))) \<and>
   \<not> integer_valued (v_max (fst (updateValue rawTemplate [[Null]] (parent_of [0]) sensor_channel))) \<and>
   \<not> integer_valued (v_min (fst (updateValue rawTemplate [[Null]] (parent_of [0]) sensor_channel))) \<and>
   snd (updateValue rawTemplate [[Num (10 ^ 21)]] (parent_of [0]) sensor_channel) = None \<and>
   max_series \<lparr>column_name = Some ''$sensor1'', events = [(0, Num (10 ^ 21))]\<rparr> (Some ''$sensor1'')
     = Inr (Num (10 ^ 21)) \<and>
   v_max (fst (updateValue rawTemplate [[Num (10 ^ 21)]] (parent_of [0]) sensor_channel))
     = Some (Num 1)"
  by code_simp

subsection \<open>Claims about failures\<close>

text \<open>
  \<open>updateValue\<close> completes without raising exactly when the parent's raw value has a
  first element, the array of time samples, the channel's raw value has a first element,
  the value template is a string, and the points the loop builds are at least one and in
  time order.
\<close>

lemma updateValue_completes_iff:
  "snd (updateValue rt store parent self) = None \<longleftrightarrow>
     (\<exists>stamps rest vs rest' c.
         parent_value parent = stamps # rest \<and> rt (value self) store = vs # rest' \<and>
         value self = Some c \<and> points_from 0 stamps vs \<noteq> [] \<and>
         isChronological (points_from 0 stamps vs))"
proof
  assume "snd (updateValue rt store parent self) = None"
  from completed_run[OF this]
  show "\<exists>stamps rest vs rest' c.
         parent_value parent = stamps # rest \<and> rt (value self) store = vs # rest' \<and>
         value self = Some c \<and> points_from 0 stamps vs \<noteq> [] \<and>
         isChronological (points_from 0 stamps vs)" by blast
next
  assume "\<exists>stamps rest vs rest' c.
         parent_value parent = stamps # rest \<and> rt (value self) store = vs # rest' \<and>
         value self = Some c \<and> points_from 0 stamps vs \<noteq> [] \<and>
         isChronological (points_from 0 stamps vs)"
  then obtain stamps rest vs rest' c where
    h: "parent_value parent = stamps # rest" "rt (value self) store = vs # rest'"
       "value self = Some c" "points_from 0 stamps vs \<noteq> []"
       "isChronological (points_from 0 stamps vs)" by blast
  let ?s = "\<lparr>column_name = Some c, events = points_from 0 stamps vs\<rparr>"
  have l: "points_loop stamps (Some vs) 0 [] = Inr (points_from 0 stamps vs)"
    using points_loop_Some[of 0 stamps vs "[]"] by simp
  have t: "TimeSeries (Some c) (points_from 0 stamps vs) = Inr ?s"
    using h(5) by (simp add: TimeSeries_def)
  have a: "avg ?s (Some c) = Inr (avg_reducer (map (\<lambda>ev. get_field ?s ev (Some c)) (events ?s)))"
          "max_series ?s (Some c) = Inr (max_reducer (map (\<lambda>ev. get_field ?s ev (Some c)) (events ?s)))"
          "min_series ?s (Some c) = Inr (min_reducer (map (\<lambda>ev. get_field ?s ev (Some c)) (events ?s)))"
    using h(4) by (simp_all add: avg_def max_series_def min_series_def aggregate_Some)
  have "range_series ?s \<noteq> None" using h(4) by (simp add: range_series_None)
  then obtain r where r: "range_series ?s = Some r" by auto
  show "snd (updateValue rt store parent self) = None"
    using h(1,2,3) l t a r by (simp add: updateValue_def Let_def index_0)
qed

text \<open>
  \<open>getValue\<close> returns no value without a tracker and \<open>null\<close> when the guarded lookup
  fails. When the start position is not below minus the size of the series (the tracker
  is not more than one range duration before the begin of the time range), \<open>bisect\<close>
  returns and \<open>getValue\<close> does not throw.
\<close>

lemma getValue_no_tracker: "tracker item = None \<Longrightarrow> getValue timerange item = Inr Undefined"
  by (simp add: getValue_def)

lemma getValue_lookup_fails:
  assumes "tracker item = Some t" and "v_series item = Some s"
    and "bisect s t (start_index t timerange (size_series s)) = Inr i"
    and "at_series s i = Inl e \<or> at_series s i = Inr None"
  shows "getValue timerange item = Inr Null"
  using assms by (auto simp: getValue_def Let_def)

lemma at_series_in_range:
  "- int (size_series s) \<le> i \<Longrightarrow> i < int (size_series s) \<Longrightarrow> \<exists>ev. at_series s (Idx i) = Inr (Some ev)"
  by (auto simp: Let_def)

lemma bisect_from_returns:
  "- int (size_series s) \<le> i \<Longrightarrow> \<exists>j. bisect_from s tms i = Inr (Idx j)"
proof (induction s tms i rule: bisect_from.induct)
  case (1 s tms i)
  show ?case
  proof (cases "i < int (size_series s)")
    case True
    then obtain ev where ev: "at_series s (Idx i) = Inr (Some ev)"
      using at_series_in_range[of s i] "1.prems" by blast
    show ?thesis
    proof (cases "fst ev > tms \<or> fst ev = tms")
      case True
      then show ?thesis using \<open>i < int (size_series s)\<close> ev
        by (subst bisect_from.simps) auto
    next
      case False
      then have "\<exists>j. bisect_from s tms (i + 1) = Inr (Idx j)"
        using "1.IH"[OF True ev] "1.prems" by auto
      then show ?thesis using \<open>i < int (size_series s)\<close> ev False
        by (subst bisect_from.simps) auto
    qed
  next
    case False
    then show ?thesis by (subst bisect_from.simps) simp
  qed
qed

lemma getValue_returns:
  assumes "v_series item = Some s"
    and "tracker item = None \<or>
         (\<exists>t. tracker item = Some t \<and>
              (\<forall>i. start_index t timerange (size_series s) = Idx i \<longrightarrow> - int (size_series s) \<le> i) \<and>
              start_index t timerange (size_series s) \<noteq> NegInf)"
  shows "\<exists>v. getValue timerange item = Inr v"
proof (cases "tracker item")
  case None
  then show ?thesis by (simp add: getValue_def)
next
  case (Some t)
  with assms(2) have st: "\<forall>i. start_index t timerange (size_series s) = Idx i \<longrightarrow> - int (size_series s) \<le> i"
    "start_index t timerange (size_series s) \<noteq> NegInf" by auto
  have "\<exists>j. bisect s t (start_index t timerange (size_series s)) = Inr j"
  proof (cases "size_series s = 0")
    case True
    then show ?thesis by simp
  next
    case False
    have z: "\<exists>j. bisect_from s t 0 = Inr (Idx j)" using bisect_from_returns[of s 0 t] by simp
    show ?thesis
    proof (cases "start_index t timerange (size_series s)")
      case (Idx i)
      then show ?thesis using st bisect_from_returns[of s i t] False by auto
    qed (use st z False in auto)
  qed
  then obtain j where "bisect s t (start_index t timerange (size_series s)) = Inr j" by blast
  then show ?thesis using Some assms(1)
    by (auto simp: getValue_def Let_def split: sum.splits option.splits)
qed

text \<open>
  C4. The claim: the guarded lookup is the only failure path, and \<open>updateValue\<close> is total
  on any raw array of the parent, an empty one included. The lookup in \<open>getValue\<close> is
  the failure the component handles: when it fails, \<open>getValue\<close> returns \<open>null\<close>. But
  \<open>updateValue\<close> is not total. It raises when the parent's raw value has no array of time
  samples or an empty one, when the channel's raw value has no first element, and when
  the value template is null. On an array of which the loop pairs every sample it
  completes exactly when the array has a sample, the samples are in time order and the
  value template is a string.
\<close>

theorem failure_paths:
  "(parent_value parent = [] \<longrightarrow> snd (updateValue rt store parent self) = Some TypeError) \<and>
   (parent_value parent = [] # rest \<longrightarrow> snd (updateValue rt store parent self) \<noteq> None) \<and>
   (rt (value self) store = [] \<longrightarrow> snd (updateValue rt store parent self) \<noteq> None) \<and>
   (value self = None \<longrightarrow> snd (updateValue rt store parent self) \<noteq> None) \<and>
   (parent_value parent = stamps # rest \<and> rt (value self) store = vs # rest' \<and>
    points_loop stamps (Some vs) 0 [] = Inr (array_points stamps vs) \<longrightarrow>
      (snd (updateValue rt store parent self) = None
         \<longleftrightarrow> stamps \<noteq> [] \<and> sorted stamps \<and> value self \<noteq> None)) \<and>
   (tracker item = Some tr \<and> v_series item = Some s \<and>
    bisect s tr (start_index tr timerange (size_series s)) = Inr i \<and>
    (at_series s i = Inl e \<or> at_series s i = Inr None) \<longrightarrow>
      getValue timerange item = Inr Null)"
proof (intro conjI impI)
  assume "parent_value parent = []"
  then show "snd (updateValue rt store parent self) = Some TypeError"
    by (simp add: updateValue_def Let_def index_0)
next
  assume "parent_value parent = [] # rest"
  then show "snd (updateValue rt store parent self) \<noteq> None"
    by (auto simp: updateValue_completes_iff)
next
  assume "rt (value self) store = []"
  then show "snd (updateValue rt store parent self) \<noteq> None"
    by (auto simp: updateValue_completes_iff)
next
  assume "value self = None"
  then show "snd (updateValue rt store parent self) \<noteq> None"
    by (auto simp: updateValue_completes_iff)
next
  assume h: "parent_value parent = stamps # rest \<and> rt (value self) store = vs # rest' \<and>
    points_loop stamps (Some vs) 0 [] = Inr (array_points stamps vs)"
  then have pts: "points_from 0 stamps vs = array_points stamps vs"
    using points_loop_Some[of 0 stamps vs "[]"] by simp
  have "isChronological (array_points stamps vs) \<longleftrightarrow> sorted stamps"
    by (simp add: isChronological_sorted fst_array_points)
  then show "snd (updateValue rt store parent self) = None
         \<longleftrightarrow> stamps \<noteq> [] \<and> sorted stamps \<and> value self \<noteq> None"
    using h pts by (auto simp: updateValue_completes_iff array_points_Nil)
next
  assume "tracker item = Some tr \<and> v_series item = Some s \<and>
    bisect s tr (start_index tr timerange (size_series s)) = Inr i \<and>
    (at_series s i = Inl e \<or> at_series s i = Inr None)"
  then show "getValue timerange item = Inr Null"
    using getValue_lookup_fails[of item tr s timerange i e] by blast
qed

theorem failure_paths_witness:
  "points_loop [0, 4, 8] (Some [Num 5, Num 6, Num 7]) 0 []
     = Inr (array_points [0, 4, 8] [Num 5, Num 6, Num 7]) \<and>
   sorted [0, 4, 8 :: int] \<and>
   snd (updateValue rawTemplate [[Num 5, Num 6, Num 7]] (parent_of [0, 4, 8]) sensor_channel) = None \<and>
   v_series (fst (updateValue rawTemplate [[Num 5, Num 6, Num 7]] (parent_of [0, 4, 8]) sensor_channel))
     = Some \<lparr>column_name = Some ''$sensor1'', events = [(0, Num 5), (4, Num 6), (8, Num 7)]\<rparr> \<and>
   bisect \<lparr>column_name = Some ''$sensor1'', events = [(0, Num 5), (4, Num 6), (8, Num 7)]\<rparr> 20 (start_index 20 (0, 10) (size_series \<lparr>column_name = Some ''$sensor1'', events = [(0, Num 5), (4, Num 6), (8, Num 7)]\<rparr>)) = Inr (Idx 5) \<and>
   at_series \<lparr>column_name = Some ''$sensor1'', events = [(0, Num 5), (4, Num 6), (8, Num 7)]\<rparr> (Idx 5) = Inl LibError \<and>
   getValue (0, 10)
     ((fst (updateValue rawTemplate [[Num 5, Num 6, Num 7]] (parent_of [0, 4, 8]) sensor_channel))
        \<lparr>tracker := Some 20\<rparr>) = Inr Null \<and>
   snd (updateValue rawTemplate [[Num 5, Num 6, Num 7]]
          ((parent_of [0, 4, 8])\<lparr>parent_value := []\<rparr>) sensor_channel) = Some TypeError \<and>
   snd (updateValue rawTemplate [[Num 5, Num 6, Num 7]] (parent_of []) sensor_channel) \<noteq> None \<and>
   snd (updateValue rawTemplate [] (parent_of [0, 4, 8]) sensor_channel) \<noteq> None \<and>
   snd (updateValue rawTemplate [[Num 5, Num 6, Num 7]] (parent_of [0, 4, 8])
          (sensor_channel\<lparr>value := None\<rparr>)) \<noteq> None"
proof -
  let ?U = "updateValue rawTemplate [[Num 5, Num 6, Num 7]] (parent_of [0, 4, 8]) sensor_channel"
  let ?S = "\<lparr>column_name = Some ''$sensor1'', events = [(0, Num 5), (4, Num 6), (8, Num 7)]\<rparr>"
  let ?item = "(fst ?U)\<lparr>tracker := Some 20\<rparr>"
  have p: "parent_value (parent_of [0, 4, 8]) = [0, 4, 8] # []" by (simp add: parent_of_def)
  have v: "rawTemplate (value sensor_channel) [[Num 5, Num 6, Num 7]] = [Num 5, Num 6, Num 7] # []"
    by (simp add: rawTemplate_def)
  have l: "points_loop [0, 4, 8] (Some [Num 5, Num 6, Num 7]) 0 []
             = Inr (array_points [0, 4, 8] [Num 5, Num 6, Num 7])" by code_simp
  have so: "sorted [0, 4, 8 :: int]" by simp
  have n: "value sensor_channel \<noteq> None" by (simp add: sensor_channel_def)
  have s: "v_series (fst ?U) = Some ?S" by code_simp
  then have s': "v_series ?item = Some ?S" by simp
  have t: "tracker ?item = Some 20" by simp
  have b: "bisect ?S 20 (start_index 20 (0, 10) (size_series ?S)) = Inr (Idx 5)" by code_simp
  have a: "at_series ?S (Idx 5) = Inl LibError" by code_simp
  note T = failure_paths[of "parent_of [0, 4, 8]" rawTemplate "[[Num 5, Num 6, Num 7]]"
                            sensor_channel "[]" "[0, 4, 8]" "[Num 5, Num 6, Num 7]" "[]"
                            ?item 20 ?S "(0, 10)" "Idx 5" LibError]
  from T p v l so n have c: "snd ?U = None" by blast
  from T t s' b a have g: "getValue (0, 10) ?item = Inr Null" by blast
  have e1: "snd (updateValue rawTemplate [[Num 5, Num 6, Num 7]]
          ((parent_of [0, 4, 8])\<lparr>parent_value := []\<rparr>) sensor_channel) = Some TypeError"
    using failure_paths[of "(parent_of [0, 4, 8])\<lparr>parent_value := []\<rparr>" rawTemplate
                           "[[Num 5, Num 6, Num 7]]" sensor_channel]
    by simp
  have e2: "snd (updateValue rawTemplate [[Num 5, Num 6, Num 7]] (parent_of []) sensor_channel) \<noteq> None"
    using failure_paths[of "parent_of []" rawTemplate "[[Num 5, Num 6, Num 7]]" sensor_channel "[]"]
    by (simp add: parent_of_def)
  have e3: "snd (updateValue rawTemplate [] (parent_of [0, 4, 8]) sensor_channel) \<noteq> None"
    using failure_paths[of "parent_of [0, 4, 8]" rawTemplate "[]" sensor_channel]
    by (simp add: rawTemplate_def)
  have e4: "snd (updateValue rawTemplate [[Num 5, Num 6, Num 7]] (parent_of [0, 4, 8])
          (sensor_channel\<lparr>value := None\<rparr>)) \<noteq> None"
    using failure_paths[of "parent_of [0, 4, 8]" rawTemplate "[[Num 5, Num 6, Num 7]]"
                           "sensor_channel\<lparr>value := None\<rparr>"]
    by simp
  from l so c s b a g e1 e2 e3 e4 show ?thesis by blast
qed

text \<open>
  An empty array of time samples, time samples out of order, a channel whose raw value
  has no first element, and a channel without a value template each make \<open>updateValue\<close>
  raise.
\<close>

theorem updateValue_raises_counterexample:
  "snd (updateValue rawTemplate [[]] (parent_of []) sensor_channel) = Some TypeError \<and>
   snd (updateValue rawTemplate [[Num 1, Num 2]] (parent_of [5, 3]) sensor_channel) = Some LibError \<and>
   snd (updateValue rawTemplate [] (parent_of [0]) sensor_channel) = Some TypeError \<and>
   snd (updateValue rawTemplate [[Num 5, Num 6, Num 7]] (parent_of [0, 4, 8])
          (sensor_channel\<lparr>value := None\<rparr>)) = Some LibError"
  by code_simp

text \<open>
  C3. The claim: for every tracker position, \<open>getValue\<close> never throws; it returns
  \<open>null\<close> when the lookup at the computed index fails and no value when no tracker is
  set. The \<open>try\<close> encloses only \<open>series.at(i).get(item.value)\<close>; the call of
  \<open>series.bisect\<close> before it is not guarded, and \<open>bisect\<close> reads the event at its start
  position. With one point at time \<open>0\<close>, the time range \<open>[0, 10]\<close> and the tracker at
  \<open>-100\<close>, the start position is \<open>-10\<close>, no event is there, and the exception leaves
  \<open>getValue\<close>.
\<close>

theorem getValue_throws_before_range:
  "v_series (fst (updateValue rawTemplate [[Num 5]] (parent_of [0]) sensor_channel))
     = Some \<lparr>column_name = Some ''$sensor1'', events = [(0, Num 5)]\<rparr> \<and>
   getValue (0, 10)
     ((fst (updateValue rawTemplate [[Num 5]] (parent_of [0]) sensor_channel))\<lparr>tracker := Some (- 100)\<rparr>)
     = Inl LibError"
  by code_simp

subsection \<open>Claims about the view\<close>

lemma track_all_derived:
  "track_all ts (c, p) = (c', p') \<Longrightarrow>
   v_value c' = v_value c \<and> v_series c' = v_series c \<and> v_min c' = v_min c \<and>
   v_max c' = v_max c \<and> v_avg c' = v_avg c \<and> v_minTime c' = v_minTime c \<and>
   v_maxTime c' = v_maxTime c"
proof (induction ts arbitrary: c p)
  case Nil
  then show ?case by (simp add: track_all_def)
next
  case (Cons t ts)
  have "track_all (t # ts) (c, p) = track_all ts (c\<lparr>tracker := t\<rparr>, updateView p)"
    by (simp add: track_all_def handleTrackerChanged_def)
  with Cons.prems have "track_all ts (c\<lparr>tracker := t\<rparr>, updateView p) = (c', p')" by simp
  from Cons.IH[OF this] show ?case by simp
qed

lemma instantiate_unset:
  "instantiate snapshot = Inr c \<Longrightarrow>
   v_value c = None \<and> v_series c = None \<and> v_min c = None \<and> v_max c = None \<and>
   v_avg c = None \<and> v_minTime c = None \<and> v_maxTime c = None \<and> tracker c = None"
  by (auto simp: instantiate_def Let_def split: sum.splits)

lemma create_unset:
  "create checks snapshot = Inr c \<Longrightarrow>
   v_value c = None \<and> v_series c = None \<and> v_min c = None \<and> v_max c = None \<and>
   v_avg c = None \<and> v_minTime c = None \<and> v_maxTime c = None \<and> tracker c = None"
  using instantiate_unset
  by (auto simp: create_def Let_def split: sum.splits if_splits)

text \<open>
  C6. For every channel model on which \<open>updateValue\<close> has never run (a model created
  from a snapshot, on which only tracker changes have run), the derived attributes
  \<open>_value\<close>, \<open>_series\<close>, \<open>_min\<close>, \<open>_max\<close>, \<open>_avg\<close>, \<open>_minTime\<close> and \<open>_maxTime\<close> are
  unset and the view returns \<open>null\<close>. They become defined with the first update: a
  first run of \<open>updateValue\<close> that completes assigns every one of them.
\<close>

theorem never_updated_unset:
  assumes "create checks snapshot = Inr c"
  shows "v_value (fst (track_all ts (c, parent))) = None \<and>
         v_series (fst (track_all ts (c, parent))) = None \<and>
         v_min (fst (track_all ts (c, parent))) = None \<and>
         v_max (fst (track_all ts (c, parent))) = None \<and>
         v_avg (fst (track_all ts (c, parent))) = None \<and>
         v_minTime (fst (track_all ts (c, parent))) = None \<and>
         v_maxTime (fst (track_all ts (c, parent))) = None \<and>
         HtxTimeSeriesChannelView (snd (track_all ts (c, parent))) (fst (track_all ts (c, parent)))
           = Inr None \<and>
         (snd (updateValue rt store (snd (track_all ts (c, parent))) (fst (track_all ts (c, parent))))
            = None \<longrightarrow>
          (\<exists>raw s mn mx av t0 t1.
             fst (updateValue rt store (snd (track_all ts (c, parent))) (fst (track_all ts (c, parent))))
               = (fst (track_all ts (c, parent)))
                   \<lparr>v_value := Some raw, v_avg := Some av, v_max := Some mx, v_min := Some mn,
                    v_series := Some s, v_minTime := Some t0, v_maxTime := Some t1\<rparr>))"
proof -
  obtain c' p' where t: "track_all ts (c, parent) = (c', p')" by (cases "track_all ts (c, parent)")
  from track_all_derived[OF t] create_unset[OF assms]
  have u: "v_value c' = None \<and> v_series c' = None \<and> v_min c' = None \<and> v_max c' = None \<and>
           v_avg c' = None \<and> v_minTime c' = None \<and> v_maxTime c' = None" by simp
  then have v: "HtxTimeSeriesChannelView p' c' = Inr None"
    by (simp add: HtxTimeSeriesChannelView_def)
  have d: "snd (updateValue rt store p' c') = None \<longrightarrow>
          (\<exists>raw s mn mx av t0 t1.
             fst (updateValue rt store p' c')
               = c'\<lparr>v_value := Some raw, v_avg := Some av, v_max := Some mx, v_min := Some mn,
                    v_series := Some s, v_minTime := Some t0, v_maxTime := Some t1\<rparr>)"
  proof
    assume "snd (updateValue rt store p' c') = None"
    from completed_run[OF this] obtain raw s a mx mn r where
      "fst (updateValue rt store p' c') = updated c' raw s a mx mn r" by blast
    then show "\<exists>raw s mn mx av t0 t1.
             fst (updateValue rt store p' c')
               = c'\<lparr>v_value := Some raw, v_avg := Some av, v_max := Some mx, v_min := Some mn,
                    v_series := Some s, v_minTime := Some t0, v_maxTime := Some t1\<rparr>"
      unfolding updated_def by blast
  qed
  show ?thesis unfolding t fst_conv snd_conv using u v d by blast
qed

theorem never_updated_unset_witness:
  "create True sensor_snapshot = Inr sensor_channel \<and>
   v_value (fst (track_all [Some 3, None, Some 5] (sensor_channel, parent_of [0, 1]))) = None \<and>
   v_avg (fst (track_all [Some 3, None, Some 5] (sensor_channel, parent_of [0, 1]))) = None \<and>
   tracker (fst (track_all [Some 3, None, Some 5] (sensor_channel, parent_of [0, 1]))) = Some 5 \<and>
   HtxTimeSeriesChannelView (snd (track_all [Some 3, None, Some 5] (sensor_channel, parent_of [0, 1])))
      (fst (track_all [Some 3, None, Some 5] (sensor_channel, parent_of [0, 1]))) = Inr None \<and>
   snd (updateValue rawTemplate [[Num 4, Num 6]]
          (snd (track_all [Some 3, None, Some 5] (sensor_channel, parent_of [0, 1])))
          (fst (track_all [Some 3, None, Some 5] (sensor_channel, parent_of [0, 1])))) = None \<and>
   v_avg (fst (updateValue rawTemplate [[Num 4, Num 6]]
          (snd (track_all [Some 3, None, Some 5] (sensor_channel, parent_of [0, 1])))
          (fst (track_all [Some 3, None, Some 5] (sensor_channel, parent_of [0, 1]))))) \<noteq> None"
proof -
  let ?st = "track_all [Some 3, None, Some 5] (sensor_channel, parent_of [0, 1])"
  have h: "create True sensor_snapshot = Inr sensor_channel" by code_simp
  have tr: "tracker (fst ?st) = Some 5" by code_simp
  have fin: "snd (updateValue rawTemplate [[Num 4, Num 6]] (snd ?st) (fst ?st)) = None"
    by code_simp
  note T = never_updated_unset[OF h, of "[Some 3, None, Some 5]" "parent_of [0, 1]" rawTemplate "[[Num 4, Num 6]]"]
  from T fin obtain raw s mn mx av t0 t1 where
    "fst (updateValue rawTemplate [[Num 4, Num 6]] (snd ?st) (fst ?st))
       = (fst ?st)\<lparr>v_value := Some raw, v_avg := Some av, v_max := Some mx, v_min := Some mn,
                    v_series := Some s, v_minTime := Some t0, v_maxTime := Some t1\<rparr>" by blast
  then have "v_avg (fst (updateValue rawTemplate [[Num 4, Num 6]] (snd ?st) (fst ?st))) \<noteq> None"
    by simp
  with T h tr fin show ?thesis by blast
qed

text \<open>
  C10. In every render, the tracker position handed to the chart is the tracker of the
  model when both the \<open>showtracker\<close> flag is true and the cursor-value lookup gave a
  truthy value, and \<open>null\<close> otherwise: a position is passed only when both hold, and
  whenever the lookup gives \<open>null\<close> or no value, or no tracker is set, the marker is
  hidden even if \<open>showtracker\<close> is true.
\<close>

theorem tracker_marker:
  assumes "HtxTimeSeriesChannelView parent item = Inr (Some r)"
  shows "\<exists>uval. getValue (initialRange parent) item = Inr uval \<and>
           trackerPosition r = (if showtracker item \<and> truthy uval then tracker item else None) \<and>
           (trackerPosition r \<noteq> None \<longrightarrow> showtracker item \<and> truthy uval) \<and>
           (uval = Null \<or> uval = Undefined \<or> tracker item = None \<longrightarrow> trackerPosition r = None)"
proof -
  have nv: "v_value item \<noteq> None"
  proof
    assume "v_value item = None"
    then have "HtxTimeSeriesChannelView parent item = Inr None"
      by (simp add: HtxTimeSeriesChannelView_def)
    with assms show False by simp
  qed
  obtain uval where g: "getValue (initialRange parent) item = Inr uval"
    using assms nv
    by (cases "getValue (initialRange parent) item") (simp_all add: HtxTimeSeriesChannelView_def)
  obtain s where s: "v_series item = Some s"
    using assms nv g by (cases "v_series item") (simp_all add: HtxTimeSeriesChannelView_def)
  obtain rg where rg: "range_series s = Some rg"
    using assms nv g s by (cases "range_series s") (simp_all add: HtxTimeSeriesChannelView_def)
  have tp: "trackerPosition r = (if showtracker item \<and> truthy uval then tracker item else None)"
    using assms nv g s rg by (auto simp: HtxTimeSeriesChannelView_def Let_def)
  have c1: "trackerPosition r \<noteq> None \<longrightarrow> showtracker item \<and> truthy uval"
    using tp by (simp split: if_splits)
  have c2: "uval = Null \<or> uval = Undefined \<or> tracker item = None \<longrightarrow> trackerPosition r = None"
    using tp by (auto split: if_splits)
  show ?thesis
    by (intro exI[of _ uval] conjI) (rule g tp c1 c2)+
qed

theorem tracker_marker_witness:
  "HtxTimeSeriesChannelView (parent_of [0, 4, 8])
     ((fst (updateValue rawTemplate [[Num 5, Num 6, Num 7]] (parent_of [0, 4, 8]) sensor_channel))
        \<lparr>tracker := Some 5\<rparr>)
   = Inr (Some \<lparr>trackerPosition = Some 5, maxTime = 8, minTime = 0, showGrid = False,
               line_interpolation = ''curveStep'', axis_min = Some (Num 5),
               axis_max = Some (Num 7)\<rparr>) \<and>
   getValue (initialRange (parent_of [0, 4, 8]))
     ((fst (updateValue rawTemplate [[Num 5, Num 6, Num 7]] (parent_of [0, 4, 8]) sensor_channel))
        \<lparr>tracker := Some 5\<rparr>) = Inr (Num 6) \<and>
   showtracker ((fst (updateValue rawTemplate [[Num 5, Num 6, Num 7]] (parent_of [0, 4, 8])
                       sensor_channel))\<lparr>tracker := Some 5\<rparr>) \<and>
   truthy (Num 6) \<and>
   HtxTimeSeriesChannelView (parent_of [0, 4, 8])
     ((fst (updateValue rawTemplate [[Num 5, Num 6, Num 7]] (parent_of [0, 4, 8]) sensor_channel))
        \<lparr>tracker := Some 20\<rparr>)
   = Inr (Some \<lparr>trackerPosition = None, maxTime = 8, minTime = 0, showGrid = False,
               line_interpolation = ''curveStep'', axis_min = Some (Num 5),
               axis_max = Some (Num 7)\<rparr>) \<and>
   getValue (initialRange (parent_of [0, 4, 8]))
     ((fst (updateValue rawTemplate [[Num 5, Num 6, Num 7]] (parent_of [0, 4, 8]) sensor_channel))
        \<lparr>tracker := Some 20\<rparr>) = Inr Null \<and>
   showtracker ((fst (updateValue rawTemplate [[Num 5, Num 6, Num 7]] (parent_of [0, 4, 8])
                       sensor_channel))\<lparr>tracker := Some 20\<rparr>)"
proof -
  let ?c = "fst (updateValue rawTemplate [[Num 5, Num 6, Num 7]] (parent_of [0, 4, 8]) sensor_channel)"
  let ?p = "parent_of [0, 4, 8]"
  have sh: "showtracker (?c\<lparr>tracker := Some 5\<rparr>)" "showtracker (?c\<lparr>tracker := Some 20\<rparr>)"
    by code_simp+
  have g1: "getValue (initialRange ?p) (?c\<lparr>tracker := Some 5\<rparr>) = Inr (Num 6)"
    by code_simp
  have g2: "getValue (initialRange ?p) (?c\<lparr>tracker := Some 20\<rparr>) = Inr Null"
    by code_simp
  obtain r1 where v1: "HtxTimeSeriesChannelView ?p (?c\<lparr>tracker := Some 5\<rparr>) = Inr (Some r1)"
    and r1: "r1 = \<lparr>trackerPosition = trackerPosition r1, maxTime = 8, minTime = 0,
                   showGrid = False, line_interpolation = ''curveStep'',
                   axis_min = Some (Num 5), axis_max = Some (Num 7)\<rparr>"
  proof
    show "HtxTimeSeriesChannelView ?p (?c\<lparr>tracker := Some 5\<rparr>)
          = Inr (Some \<lparr>trackerPosition = Some 5, maxTime = 8, minTime = 0, showGrid = False,
               line_interpolation = ''curveStep'', axis_min = Some (Num 5),
               axis_max = Some (Num 7)\<rparr>)" by code_simp
  qed simp
  obtain r2 where v2: "HtxTimeSeriesChannelView ?p (?c\<lparr>tracker := Some 20\<rparr>) = Inr (Some r2)"
    and r2: "r2 = \<lparr>trackerPosition = trackerPosition r2, maxTime = 8, minTime = 0,
                   showGrid = False, line_interpolation = ''curveStep'',
                   axis_min = Some (Num 5), axis_max = Some (Num 7)\<rparr>"
  proof
    show "HtxTimeSeriesChannelView ?p (?c\<lparr>tracker := Some 20\<rparr>)
          = Inr (Some \<lparr>trackerPosition = None, maxTime = 8, minTime = 0, showGrid = False,
               line_interpolation = ''curveStep'', axis_min = Some (Num 5),
               axis_max = Some (Num 7)\<rparr>)" by code_simp
  qed simp
  from tracker_marker[OF v1] g1 sh(1) have t1: "trackerPosition r1 = Some 5" by auto
  from tracker_marker[OF v2] g2 have t2: "trackerPosition r2 = None" by auto
  from v1 r1 t1 have w1: "HtxTimeSeriesChannelView ?p (?c\<lparr>tracker := Some 5\<rparr>)
          = Inr (Some \<lparr>trackerPosition = Some 5, maxTime = 8, minTime = 0, showGrid = False,
               line_interpolation = ''curveStep'', axis_min = Some (Num 5),
               axis_max = Some (Num 7)\<rparr>)" by simp
  from v2 r2 t2 have w2: "HtxTimeSeriesChannelView ?p (?c\<lparr>tracker := Some 20\<rparr>)
          = Inr (Some \<lparr>trackerPosition = None, maxTime = 8, minTime = 0, showGrid = False,
               line_interpolation = ''curveStep'', axis_min = Some (Num 5),
               axis_max = Some (Num 7)\<rparr>)" by simp
  from w1 w2 g1 g2 sh show ?thesis by simp
qed

subsection \<open>Claims about the configuration\<close>









end
